theory Spec2Isabelle
  imports Complex_Main "HOL-Library.AList" "HOL-Library.Char_ord" "HOL-Library.List_Lexorder"
begin

section \<open>JavaScript strings and regular expressions\<close>

text \<open>
  A JavaScript string is modelled as a \<^typ>\<open>string\<close>, one \<^typ>\<open>char\<close> per code unit, so
  the alphabet is the 8-bit one. A JavaScript \<^verbatim>\<open>number\<close> is modelled as an exact
  \<^typ>\<open>real\<close>: amounts are decimals with at most two fraction digits, and rounding of
  IEEE doubles is outside the model.
\<close>

definition isDigit :: "char \<Rightarrow> bool" where
  \<comment> \<open>\<^verbatim>\<open>\d\<close>\<close>
  "isDigit c = (c \<in> set ''0123456789'')"

definition isUpper :: "char \<Rightarrow> bool" where
  "isUpper c = (c \<in> set ''ABCDEFGHIJKLMNOPQRSTUVWXYZ'')"

definition isLower :: "char \<Rightarrow> bool" where
  "isLower c = (c \<in> set ''abcdefghijklmnopqrstuvwxyz'')"

definition isAlpha :: "char \<Rightarrow> bool" where
  \<comment> \<open>\<^verbatim>\<open>[A-Za-z]\<close>\<close>
  "isAlpha c = (isUpper c \<or> isLower c)"

definition isWordChar :: "char \<Rightarrow> bool" where
  \<comment> \<open>\<^verbatim>\<open>\w\<close>, the class that \<^verbatim>\<open>\b\<close> is defined by\<close>
  "isWordChar c = (isAlpha c \<or> isDigit c \<or> c = CHR ''_'')"

definition isSpace :: "char \<Rightarrow> bool" where
  \<comment> \<open>\<^verbatim>\<open>\s\<close> and the characters \<^verbatim>\<open>trim\<close> strips: TAB, LF, VT, FF, CR, space, NBSP\<close>
  "isSpace c = (c \<in> set [CHR 0x09, CHR 0x0A, CHR 0x0B, CHR 0x0C, CHR 0x0D, CHR 0x20, CHR 0xA0])"

definition isLineTerminator :: "char \<Rightarrow> bool" where
  "isLineTerminator c = (c = CHR 0x0A \<or> c = CHR 0x0D)"

definition lowerChar :: "char \<Rightarrow> char" where
  "lowerChar c = (if isUpper c then char_of (of_char c + (32::nat)) else c)"

definition upperChar :: "char \<Rightarrow> char" where
  "upperChar c = (if isLower c then char_of (of_char c - (32::nat)) else c)"

definition toLowerCase :: "string \<Rightarrow> string" where
  "toLowerCase s = map lowerChar s"

definition toUpperCase :: "string \<Rightarrow> string" where
  "toUpperCase s = map upperChar s"

definition trim :: "string \<Rightarrow> string" where
  "trim s = rev (dropWhile isSpace (rev (dropWhile isSpace s)))"

fun startsWith :: "string \<Rightarrow> string \<Rightarrow> bool" where
  "startsWith s [] = True"
| "startsWith [] (p # ps) = False"
| "startsWith (c # cs) (p # ps) = (c = p \<and> startsWith cs ps)"

fun includesStr :: "string \<Rightarrow> string \<Rightarrow> bool" where
  \<comment> \<open>\<^verbatim>\<open>s.includes(sub)\<close>\<close>
  "includesStr [] sub = (sub = [])"
| "includesStr (c # cs) sub = (startsWith (c # cs) sub \<or> includesStr cs sub)"

definition padStart2 :: "string \<Rightarrow> string" where
  \<comment> \<open>\<^verbatim>\<open>s.padStart(2, "0")\<close>\<close>
  "padStart2 s = replicate (2 - length s) CHR ''0'' @ s"

subsection \<open>A backtracking matcher\<close>

text \<open>
  Regular expressions are matched as the ECMAScript matcher does: alternatives left to
  right, quantifiers greedy, backtracking in that order. A position holds the character
  before it (for \<^verbatim>\<open>\b\<close>), the text after it and the capture groups set so far;
  \<open>rmatch r p\<close> lists the positions where a match of \<open>r\<close> from \<open>p\<close> can end, in the
  order in which the matcher tries them. An iteration of \<^verbatim>\<open>*\<close> that consumes nothing
  is rejected, as in ECMAScript, so the length of the remaining text bounds the number of
  iterations.
\<close>

datatype re =
    Cls "char \<Rightarrow> bool"
  | Eps
  | Seq re re
  | Alt re re
  | Star re
  | WordB
  | Grp nat re

datatype pos = Pos (prevChar: "char option") (remaining: string) (captures: "(nat \<times> string) list")

primrec star_iter :: "nat \<Rightarrow> (pos \<Rightarrow> pos list) \<Rightarrow> pos \<Rightarrow> pos list" where
  "star_iter 0 f p = [p]"
| "star_iter (Suc n) f p =
     concat (map (\<lambda>q. if length (remaining q) < length (remaining p) then star_iter n f q else []) (f p)) @ [p]"

definition wordBefore :: "pos \<Rightarrow> bool" where
  "wordBefore p = (case prevChar p of None \<Rightarrow> False | Some c \<Rightarrow> isWordChar c)"

definition wordAfter :: "pos \<Rightarrow> bool" where
  "wordAfter p = (case remaining p of [] \<Rightarrow> False | c # _ \<Rightarrow> isWordChar c)"

definition consumed :: "pos \<Rightarrow> pos \<Rightarrow> string" where
  \<comment> \<open>the text between a position and a later one\<close>
  "consumed p q = take (length (remaining p) - length (remaining q)) (remaining p)"

primrec rmatch :: "re \<Rightarrow> pos \<Rightarrow> pos list" where
  "rmatch (Cls P) p =
     (case remaining p of [] \<Rightarrow> [] | c # cs \<Rightarrow> if P c then [Pos (Some c) cs (captures p)] else [])"
| "rmatch Eps p = [p]"
| "rmatch (Seq a b) p = concat (map (rmatch b) (rmatch a p))"
| "rmatch (Alt a b) p = rmatch a p @ rmatch b p"
| "rmatch (Star a) p = star_iter (length (remaining p)) (rmatch a) p"
| "rmatch WordB p = (if wordBefore p \<noteq> wordAfter p then [p] else [])"
| "rmatch (Grp n a) p = map (\<lambda>q. Pos (prevChar q) (remaining q) ((n, consumed p q) # captures q)) (rmatch a p)"

definition Plus :: "re \<Rightarrow> re" where
  \<comment> \<open>\<^verbatim>\<open>r+\<close>\<close>
  "Plus r = Seq r (Star r)"

definition Opt :: "re \<Rightarrow> re" where
  \<comment> \<open>\<^verbatim>\<open>r?\<close>\<close>
  "Opt r = Alt r Eps"

definition Chr :: "char \<Rightarrow> re" where
  "Chr c = Cls (\<lambda>x. x = c)"

definition ChrI :: "char \<Rightarrow> re" where
  \<comment> \<open>one character under the \<^verbatim>\<open>i\<close> flag\<close>
  "ChrI c = Cls (\<lambda>x. lowerChar x = lowerChar c)"

primrec Lit :: "string \<Rightarrow> re" where
  "Lit [] = Eps"
| "Lit (c # cs) = Seq (Chr c) (Lit cs)"

primrec LitI :: "string \<Rightarrow> re" where
  "LitI [] = Eps"
| "LitI (c # cs) = Seq (ChrI c) (LitI cs)"

primrec Alts :: "re list \<Rightarrow> re" where
  \<comment> \<open>\<^verbatim>\<open>a|b|c\<close>; the empty alternation matches nothing\<close>
  "Alts [] = Cls (\<lambda>_. False)"
| "Alts (r # rs) = (if rs = [] then r else Alt r (Alts rs))"

definition Rep12 :: "re \<Rightarrow> re" where
  \<comment> \<open>\<^verbatim>\<open>r{1,2}\<close>\<close>
  "Rep12 r = Seq r (Opt r)"

definition Rep24 :: "re \<Rightarrow> re" where
  \<comment> \<open>\<^verbatim>\<open>r{2,4}\<close>\<close>
  "Rep24 r = Seq r (Seq r (Opt (Seq r (Opt r))))"

definition firstMatch :: "re \<Rightarrow> pos \<Rightarrow> pos option" where
  \<comment> \<open>the match the matcher settles on at a fixed start position\<close>
  "firstMatch r p = (case rmatch r p of [] \<Rightarrow> None | q # _ \<Rightarrow> Some q)"

definition matchAnchored :: "re \<Rightarrow> string \<Rightarrow> (nat \<times> string) list option" where
  \<comment> \<open>\<^verbatim>\<open>s.match(/^r$/)\<close>: the capture groups of the first match that ends at the end of \<open>s\<close>\<close>
  "matchAnchored r s =
     (case filter (\<lambda>q. remaining q = []) (rmatch r (Pos None s [])) of
        [] \<Rightarrow> None
      | q # _ \<Rightarrow> Some (captures q))"

definition grp :: "(nat \<times> string) list \<Rightarrow> nat \<Rightarrow> string" where
  \<comment> \<open>\<^verbatim>\<open>m[n]\<close>; a group that took no part in the match is \<^verbatim>\<open>undefined\<close> in JavaScript and
      the empty string here, and both are falsy\<close>
  "grp m n = (case map_of m n of None \<Rightarrow> [] | Some s \<Rightarrow> s)"

definition fullMatch :: "re \<Rightarrow> string \<Rightarrow> bool" where
  \<comment> \<open>\<^verbatim>\<open>/^r$/.test(s)\<close>\<close>
  "fullMatch r s = (matchAnchored r s \<noteq> None)"

fun searchFrom :: "re \<Rightarrow> char option \<Rightarrow> string \<Rightarrow> (nat \<times> string) list option" where
  "searchFrom r pr [] = map_option captures (firstMatch r (Pos pr [] []))"
| "searchFrom r pr (c # cs) =
     (case firstMatch r (Pos pr (c # cs) []) of
        Some q \<Rightarrow> Some (captures q)
      | None \<Rightarrow> searchFrom r (Some c) cs)"

definition search :: "re \<Rightarrow> string \<Rightarrow> (nat \<times> string) list option" where
  \<comment> \<open>\<^verbatim>\<open>s.match(/r/)\<close>: the capture groups of the leftmost match\<close>
  "search r s = searchFrom r None s"

definition test :: "re \<Rightarrow> string \<Rightarrow> bool" where
  \<comment> \<open>\<^verbatim>\<open>/r/.test(s)\<close>\<close>
  "test r s = (search r s \<noteq> None)"

function replaceFrom :: "re \<Rightarrow> string \<Rightarrow> char option \<Rightarrow> string \<Rightarrow> string" where
  "replaceFrom r rep pr s =
     (case firstMatch r (Pos pr s []) of
        Some q \<Rightarrow>
          if length (remaining q) < length s then rep @ replaceFrom r rep (prevChar q) (remaining q)
          else (case s of [] \<Rightarrow> rep | c # cs \<Rightarrow> rep @ c # replaceFrom r rep (Some c) cs)
      | None \<Rightarrow> (case s of [] \<Rightarrow> [] | c # cs \<Rightarrow> c # replaceFrom r rep (Some c) cs))"
  by pat_completeness auto
termination
  by (relation "measure (\<lambda>(r, rep, pr, s). length s)") auto

definition replaceAll :: "re \<Rightarrow> string \<Rightarrow> string \<Rightarrow> string" where
  \<comment> \<open>\<^verbatim>\<open>s.replace(/r/g, rep)\<close>\<close>
  "replaceAll r rep s = replaceFrom r rep None s"

function matchAllFrom :: "re \<Rightarrow> nat \<Rightarrow> char option \<Rightarrow> string \<Rightarrow> (nat \<times> string) list" where
  "matchAllFrom r i pr s =
     (case firstMatch r (Pos pr s []) of
        Some q \<Rightarrow>
          if length (remaining q) < length s
          then (i, take (length s - length (remaining q)) s)
                 # matchAllFrom r (i + (length s - length (remaining q))) (prevChar q) (remaining q)
          else (case s of [] \<Rightarrow> [(i, [])] | c # cs \<Rightarrow> (i, []) # matchAllFrom r (i + 1) (Some c) cs)
      | None \<Rightarrow> (case s of [] \<Rightarrow> [] | c # cs \<Rightarrow> matchAllFrom r (i + 1) (Some c) cs))"
  by pat_completeness auto
termination
  by (relation "measure (\<lambda>(r, i, pr, s). length s)") auto

definition matchAll :: "re \<Rightarrow> string \<Rightarrow> (nat \<times> string) list" where
  \<comment> \<open>\<^verbatim>\<open>Array.from(s.matchAll(/r/g))\<close>: each match as (index, matched text)\<close>
  "matchAll r s = matchAllFrom r 0 None s"

function splitFrom :: "re \<Rightarrow> string \<Rightarrow> char option \<Rightarrow> string \<Rightarrow> string list" where
  "splitFrom r acc pr s =
     (case s of
        [] \<Rightarrow> [acc]
      | c # cs \<Rightarrow>
          (case firstMatch r (Pos pr s []) of
             Some q \<Rightarrow>
               if length (remaining q) < length s then acc # splitFrom r [] (prevChar q) (remaining q)
               else splitFrom r (acc @ [c]) (Some c) cs
           | None \<Rightarrow> splitFrom r (acc @ [c]) (Some c) cs))"
  by pat_completeness auto
termination
  by (relation "measure (\<lambda>(r, acc, pr, s). length s)") auto

definition split :: "re \<Rightarrow> string \<Rightarrow> string list" where
  \<comment> \<open>\<^verbatim>\<open>s.split(/r/)\<close>, for a pattern without groups that matches no empty string\<close>
  "split r s = splitFrom r [] None s"

declare replaceFrom.simps [simp del] matchAllFrom.simps [simp del] splitFrom.simps [simp del]

section \<open>The data model\<close>

datatype DrCr = CR | DR

text \<open>\<^verbatim>\<open>Txn\<close> of the analyze route; the optional fields are options.\<close>

record Txn =
  txn_id :: string
  date :: string
  description :: string
  amount :: real
  drCr :: "DrCr option"
  sourceParser :: "string option"
  currency :: string
  category :: string
  confidence :: real
  txn_merchant :: "string option"
  txn_isSubscription :: "bool option"

record CategoryEntry =
  cb_category :: string
  cb_count :: nat
  cb_total :: real

record MonthEntry =
  mom_month :: string
  mom_income :: real
  mom_expense :: real
  mom_net :: real

record Subscription =
  sub_merchant :: string
  sub_count :: nat
  sub_avgAmount :: real
  sub_totalAmount :: real

record UnusualSpend =
  us_id :: string
  us_date :: string
  us_description :: string
  us_amount :: real

record TopEntry =
  top_description :: string
  top_amount :: real

record Insights =
  transactionCount :: nat
  totalDebits :: real
  totalCredits :: real
  netFlow :: real
  incomeExpenseRatio :: "real option"
  avgDebit :: real
  avgCredit :: real
  categoryBreakdown :: "CategoryEntry list"
  monthOverMonth :: "MonthEntry list"
  subscriptions :: "Subscription list"
  unusualSpends :: "UnusualSpend list"
  topExpense :: "TopEntry option"
  topCredit :: "TopEntry option"

section \<open>The insights engine (\<^verbatim>\<open>buildInsights\<close> of the analyze route)\<close>

definition monthKeyRe :: re where
  \<comment> \<open>\<^verbatim>\<open>(\d{4})-(\d{2})-\d{2}\<close>, anchored by its caller\<close>
  "monthKeyRe =
     Seq (Seq (Cls isDigit) (Seq (Cls isDigit) (Seq (Cls isDigit) (Cls isDigit))))
       (Seq (Chr CHR ''-'') (Seq (Seq (Cls isDigit) (Cls isDigit))
         (Seq (Chr CHR ''-'') (Seq (Cls isDigit) (Cls isDigit)))))"

definition monthKey :: "string \<Rightarrow> string option" where
  \<comment> \<open>both groups have a fixed width, so group 1 is the first four characters and
      group 2 the two after the dash\<close>
  "monthKey dateIso =
     (if fullMatch monthKeyRe dateIso
      then Some (take 4 dateIso @ ''-'' @ take 2 (drop 5 dateIso))
      else None)"

definition stopWordRe :: re where
  \<comment> \<open>\<^verbatim>\<open>\b(UPI|IMPS|NEFT|RTGS|POS|ATM|TO|BY|TRANSFER|PAYMENT|DEBIT|CREDIT|REF|TXN|ID)\b\<close>\<close>
  "stopWordRe =
     Seq WordB (Seq (Alts (map Lit [''UPI'', ''IMPS'', ''NEFT'', ''RTGS'', ''POS'', ''ATM'', ''TO'',
       ''BY'', ''TRANSFER'', ''PAYMENT'', ''DEBIT'', ''CREDIT'', ''REF'', ''TXN'', ''ID''])) WordB)"

definition noiseRe :: re where
  \<comment> \<open>\<^verbatim>\<open>[0-9#*._/-]+\<close>\<close>
  "noiseRe = Plus (Cls (\<lambda>c. isDigit c \<or> c \<in> set ''#*._/-''))"

definition spacesRe :: re where
  \<comment> \<open>\<^verbatim>\<open>\s+\<close>\<close>
  "spacesRe = Plus (Cls isSpace)"

definition normalizeMerchant :: "string \<Rightarrow> string" where
  "normalizeMerchant d =
     trim (replaceAll spacesRe '' '' (replaceAll noiseRe '' '' (replaceAll stopWordRe '' '' (toUpperCase d))))"

definition isDebit :: "Txn \<Rightarrow> bool" where
  \<comment> \<open>\<^verbatim>\<open>t.drCr ? t.drCr === "DR" : t.amount < 0\<close>\<close>
  "isDebit t = (case drCr t of Some k \<Rightarrow> k = DR | None \<Rightarrow> amount t < 0)"

definition isCredit :: "Txn \<Rightarrow> bool" where
  \<comment> \<open>\<^verbatim>\<open>t.drCr ? t.drCr === "CR" : t.amount > 0\<close>\<close>
  "isCredit t = (case drCr t of Some k \<Rightarrow> k = CR | None \<Rightarrow> amount t > 0)"

definition sumAbs :: "Txn list \<Rightarrow> real" where
  \<comment> \<open>\<^verbatim>\<open>list.reduce((sum, t) => sum + Math.abs(t.amount), 0)\<close>\<close>
  "sumAbs ts = foldl (\<lambda>sum t. sum + \<bar>amount t\<bar>) 0 ts"

definition topExpenseTxn :: "Txn list \<Rightarrow> Txn option" where
  "topExpenseTxn debits =
     foldl (\<lambda>best t. case best of None \<Rightarrow> Some t
                     | Some b \<Rightarrow> if \<bar>amount t\<bar> > \<bar>amount b\<bar> then Some t else Some b) None debits"

definition topCreditTxn :: "Txn list \<Rightarrow> Txn option" where
  "topCreditTxn credits =
     foldl (\<lambda>best t. case best of None \<Rightarrow> Some t
                     | Some b \<Rightarrow> if amount t > amount b then Some t else Some b) None credits"

text \<open>
  A JavaScript \<^verbatim>\<open>Map\<close> keeps its keys in the order of their first insertion: an
  association list, updated in place (\<^const>\<open>AList.update\<close>).
\<close>

definition categoryMap :: "Txn list \<Rightarrow> (string \<times> nat \<times> real) list" where
  "categoryMap txns =
     foldl (\<lambda>m t. case (case map_of m (category t) of None \<Rightarrow> (0, 0) | Some e \<Rightarrow> e) of
                    (cnt, tot) \<Rightarrow> AList.update (category t) (cnt + 1, tot + \<bar>amount t\<bar>) m)
       [] txns"

definition categoryBreakdownOf :: "Txn list \<Rightarrow> CategoryEntry list" where
  "categoryBreakdownOf txns =
     sort_key (\<lambda>e. - cb_total e)
       (map (\<lambda>(cat, cnt, tot). \<lparr>cb_category = cat, cb_count = cnt, cb_total = tot\<rparr>)
          (categoryMap txns))"

definition monthMapOf :: "Txn list \<Rightarrow> (string \<times> real \<times> real) list" where
  "monthMapOf txns =
     foldl (\<lambda>m t. case monthKey (date t) of
                    None \<Rightarrow> m
                  | Some mk \<Rightarrow>
                      (case (case map_of m mk of None \<Rightarrow> (0, 0) | Some e \<Rightarrow> e) of
                         (income, expense) \<Rightarrow>
                           if (case drCr t of Some k \<Rightarrow> k | None \<Rightarrow> if amount t \<ge> 0 then CR else DR) = CR
                           then AList.update mk (income + \<bar>amount t\<bar>, expense) m
                           else AList.update mk (income, expense + \<bar>amount t\<bar>) m))
       [] txns"

definition monthOverMonthOf :: "Txn list \<Rightarrow> MonthEntry list" where
  \<comment> \<open>the keys are \<^verbatim>\<open>dddd-dd\<close>, on which \<^verbatim>\<open>localeCompare\<close> is the order of the code units\<close>
  "monthOverMonthOf txns =
     map (\<lambda>(month, income, expense).
            \<lparr>mom_month = month, mom_income = income, mom_expense = expense, mom_net = income - expense\<rparr>)
       (sort_key fst (monthMapOf txns))"

definition merchantGroups :: "Txn list \<Rightarrow> (string \<times> Txn list) list" where
  "merchantGroups debits =
     foldl (\<lambda>m t. let merchant = normalizeMerchant (description t) in
                  if merchant = [] \<or> length merchant < 3 then m
                  else AList.update merchant
                         ((case map_of m merchant of None \<Rightarrow> [] | Some arr \<Rightarrow> arr) @ [t]) m)
       [] debits"

record MerchantGroup =
  g_merchant :: string
  g_count :: nat
  g_monthCount :: nat
  g_avgAmount :: real
  g_totalAmount :: real

definition summarize :: "string \<times> Txn list \<Rightarrow> MerchantGroup" where
  \<comment> \<open>the first \<^verbatim>\<open>map\<close> of the subscription chain\<close>
  "summarize e =
     (case e of (merchant, list) \<Rightarrow>
        let months = remdups (List.map_filter (\<lambda>t. monthKey (date t)) list);
            total = sumAbs list;
            avg = total / real (length list)
        in \<lparr>g_merchant = merchant, g_count = length list, g_monthCount = length months,
            g_avgAmount = avg, g_totalAmount = total\<rparr>)"

definition toSubscription :: "MerchantGroup \<Rightarrow> Subscription" where
  \<comment> \<open>the callback of the last \<^verbatim>\<open>map\<close> of the subscription chain\<close>
  "toSubscription g =
     \<lparr>sub_merchant = g_merchant g, sub_count = g_count g,
      sub_avgAmount = g_avgAmount g, sub_totalAmount = g_totalAmount g\<rparr>"

definition subscriptionsOf :: "Txn list \<Rightarrow> Subscription list" where
  "subscriptionsOf debits =
     map toSubscription
       (take 10
          (sort_key (\<lambda>g. - g_totalAmount g)
             (filter (\<lambda>g. g_count g \<ge> 2 \<and> g_monthCount g \<ge> 2)
                (map summarize (merchantGroups debits)))))"

definition meanOf :: "real list \<Rightarrow> real" where
  "meanOf debitAbs = (if debitAbs \<noteq> [] then foldl (+) 0 debitAbs / real (length debitAbs) else 0)"

definition varianceOf :: "real list \<Rightarrow> real" where
  "varianceOf debitAbs =
     (if length debitAbs > 1
      then foldl (\<lambda>s v. s + (v - meanOf debitAbs) * (v - meanOf debitAbs)) 0 debitAbs
             / real (length debitAbs)
      else 0)"

definition unusualThreshold :: "Txn list \<Rightarrow> real" where
  "unusualThreshold debits =
     (let debitAbs = map (\<lambda>t. \<bar>amount t\<bar>) debits;
          mean = meanOf debitAbs;
          stdDev = sqrt (varianceOf debitAbs)
      in max (mean * 1.8) (mean + 2 * stdDev))"

definition toUnusualSpend :: "Txn \<Rightarrow> UnusualSpend" where
  \<comment> \<open>the callback of the last \<^verbatim>\<open>map\<close> of the unusual-spend chain\<close>
  "toUnusualSpend t =
     \<lparr>us_id = txn_id t, us_date = date t, us_description = description t, us_amount = \<bar>amount t\<bar>\<rparr>"

definition unusualSpendsOf :: "Txn list \<Rightarrow> UnusualSpend list" where
  "unusualSpendsOf debits =
     map toUnusualSpend
       (take 10
          (sort_key (\<lambda>t. - \<bar>amount t\<bar>)
             (filter (\<lambda>t. \<bar>amount t\<bar> > unusualThreshold debits \<and> \<bar>amount t\<bar> > 1000) debits)))"

definition buildInsights :: "Txn list \<Rightarrow> Insights" where
  "buildInsights txns =
     (let debits = filter isDebit txns;
          credits = filter isCredit txns;
          totalDebits = sumAbs debits;
          totalCredits = sumAbs credits
      in \<lparr>transactionCount = length txns,
          totalDebits = totalDebits,
          totalCredits = totalCredits,
          netFlow = totalCredits - totalDebits,
          incomeExpenseRatio = (if totalDebits > 0 then Some (totalCredits / totalDebits) else None),
          avgDebit = (if debits \<noteq> [] then totalDebits / real (length debits) else 0),
          avgCredit = (if credits \<noteq> [] then totalCredits / real (length credits) else 0),
          categoryBreakdown = categoryBreakdownOf txns,
          monthOverMonth = monthOverMonthOf txns,
          subscriptions = subscriptionsOf debits,
          unusualSpends = unusualSpendsOf debits,
          topExpense = map_option (\<lambda>t. \<lparr>top_description = description t, top_amount = \<bar>amount t\<bar>\<rparr>)
                         (topExpenseTxn debits),
          topCredit = map_option (\<lambda>t. \<lparr>top_description = description t, top_amount = amount t\<rparr>)
                        (topCreditTxn credits)\<rparr>)"

section \<open>Shared parser helpers (\<^verbatim>\<open>parsers/common.ts\<close>)\<close>

definition digitVal :: "char \<Rightarrow> nat" where
  "digitVal c = of_char c - 48"

definition digitsToNat :: "string \<Rightarrow> nat" where
  \<comment> \<open>\<^verbatim>\<open>Number(s)\<close> for a string of decimal digits\<close>
  "digitsToNat s = foldl (\<lambda>n c. 10 * n + digitVal c) 0 s"

definition digitChar :: "nat \<Rightarrow> char" where
  \<comment> \<open>the decimal digit of a number below 10\<close>
  "digitChar k = ''0123456789'' ! k"

function showNat :: "nat \<Rightarrow> string" where
  \<comment> \<open>\<^verbatim>\<open>String(n)\<close> for a non-negative integer\<close>
  "showNat n = (if n < 10 then [digitChar n] else showNat (n div 10) @ [digitChar (n mod 10)])"
  by pat_completeness auto
termination
  by (relation "measure id") auto

declare showNat.simps [simp del]

definition decimalValue :: "string \<Rightarrow> real" where
  \<comment> \<open>\<^verbatim>\<open>Number(s)\<close> for \<open>s\<close> of the form \<^verbatim>\<open>-?\d+(\.\d{1,2})?\<close>, as an exact decimal\<close>
  "decimalValue s =
     (let neg = startsWith s ''-'';
          body = (if neg then tl s else s);
          ip = takeWhile isDigit body;
          fp = drop (length ip + 1) body
      in (if neg then - 1 else 1) * (real (digitsToNat ip) + real (digitsToNat fp) / 10 ^ length fp))"

definition dateSepCls :: re where
  \<comment> \<open>\<^verbatim>\<open>[./-]\<close>\<close>
  "dateSepCls = Cls (\<lambda>c. c \<in> set ''./-'')"

definition alpha3 :: re where
  \<comment> \<open>\<^verbatim>\<open>[A-Za-z]{3}\<close>\<close>
  "alpha3 = Seq (Cls isAlpha) (Seq (Cls isAlpha) (Cls isAlpha))"

definition DATE_TOKEN :: re where
  \<comment> \<open>\<^verbatim>\<open>(?:\d{1,2}[./-]\d{1,2}[./-]\d{2,4}|\d{1,2}\s+[A-Za-z]{3}\s+\d{2,4}|\d{1,2}-[A-Za-z]{3}-\d{2,4})\<close>\<close>
  "DATE_TOKEN =
     Alt (Seq (Rep12 (Cls isDigit)) (Seq dateSepCls (Seq (Rep12 (Cls isDigit))
            (Seq dateSepCls (Rep24 (Cls isDigit))))))
      (Alt (Seq (Rep12 (Cls isDigit)) (Seq (Plus (Cls isSpace)) (Seq alpha3
              (Seq (Plus (Cls isSpace)) (Rep24 (Cls isDigit))))))
           (Seq (Rep12 (Cls isDigit)) (Seq (Chr CHR ''-'') (Seq alpha3
              (Seq (Chr CHR ''-'') (Rep24 (Cls isDigit)))))))"

definition normalizeAmountToken :: "string \<Rightarrow> string" where
  \<comment> \<open>\<^verbatim>\<open>raw.replace(/[^\d,.-]/g, "").replace(/,/g, "").trim()\<close>\<close>
  "normalizeAmountToken raw =
     trim (replaceAll (Chr CHR '','') []
       (replaceAll (Cls (\<lambda>c. \<not> (isDigit c \<or> c \<in> set '',.-''))) [] raw))"

definition signedDecimalRe :: re where
  \<comment> \<open>\<^verbatim>\<open>-?\d+(?:\.\d{1,2})?\<close>\<close>
  "signedDecimalRe =
     Seq (Opt (Chr CHR ''-'')) (Seq (Plus (Cls isDigit)) (Opt (Seq (Chr CHR ''.'') (Rep12 (Cls isDigit)))))"

definition parseAmountToken :: "string \<Rightarrow> real option" where
  \<comment> \<open>\<^verbatim>\<open>Number.isFinite\<close> holds of every exact decimal, so only the grammar test can
      answer \<^verbatim>\<open>null\<close>\<close>
  "parseAmountToken token =
     (let normalized = normalizeAmountToken token
      in if \<not> fullMatch signedDecimalRe normalized then None
         else Some (decimalValue normalized))"

definition slashDateRe :: re where
  \<comment> \<open>\<^verbatim>\<open>(\d{1,2})[./-](\d{1,2})[./-](\d{2,4})\<close>\<close>
  "slashDateRe =
     Seq (Grp 1 (Rep12 (Cls isDigit))) (Seq dateSepCls (Seq (Grp 2 (Rep12 (Cls isDigit)))
       (Seq dateSepCls (Grp 3 (Rep24 (Cls isDigit))))))"

definition monthNameDateRe :: re where
  \<comment> \<open>\<^verbatim>\<open>(\d{1,2})[\s-]([A-Za-z]{3})[\s-](\d{2,4})\<close>\<close>
  "monthNameDateRe =
     Seq (Grp 1 (Rep12 (Cls isDigit))) (Seq (Cls (\<lambda>c. isSpace c \<or> c = CHR ''-''))
       (Seq (Grp 2 alpha3) (Seq (Cls (\<lambda>c. isSpace c \<or> c = CHR ''-'')) (Grp 3 (Rep24 (Cls isDigit))))))"

definition monthMap :: "string \<Rightarrow> string option" where
  "monthMap = map_of [(''jan'', ''01''), (''feb'', ''02''), (''mar'', ''03''), (''apr'', ''04''),
     (''may'', ''05''), (''jun'', ''06''), (''jul'', ''07''), (''aug'', ''08''), (''sep'', ''09''),
     (''oct'', ''10''), (''nov'', ''11''), (''dec'', ''12'')]"

definition expandYear :: "string \<Rightarrow> string" where
  \<comment> \<open>\<^verbatim>\<open>if (yyyy.length === 2) { const y = Number(yyyy); yyyy = String(y >= 70 ? 1900 + y : 2000 + y); }\<close>\<close>
  "expandYear yyyy =
     (if length yyyy = 2
      then (let y = digitsToNat yyyy in showNat (if y \<ge> 70 then 1900 + y else 2000 + y))
      else yyyy)"

definition toIsoDate :: "string \<Rightarrow> string" where
  "toIsoDate d =
     (case matchAnchored slashDateRe d of
        Some slash \<Rightarrow>
          (let dd = padStart2 (grp slash 1);
               mm = padStart2 (grp slash 2);
               yyyy = expandYear (grp slash 3)
           in yyyy @ ''-'' @ mm @ ''-'' @ dd)
      | None \<Rightarrow>
          (case matchAnchored monthNameDateRe d of
             Some monthName \<Rightarrow>
               (let dd = padStart2 (grp monthName 1);
                    mmm = toLowerCase (grp monthName 2)
                in case monthMap mmm of
                     None \<Rightarrow> d
                   | Some mm \<Rightarrow> expandYear (grp monthName 3) @ ''-'' @ mm @ ''-'' @ dd)
           | None \<Rightarrow> d))"

definition inferCategory :: "string \<Rightarrow> string" where
  "inferCategory text =
     (let t = toLowerCase text in
      if includesStr t ''upi'' \<or> includesStr t ''imps'' \<or> includesStr t ''neft'' \<or> includesStr t ''rtgs''
      then ''transfer''
      else if includesStr t ''atm'' then ''cash''
      else if includesStr t ''salary'' then ''income''
      else if includesStr t ''interest'' then ''interest''
      else if includesStr t ''emi'' \<or> includesStr t ''loan'' then ''loan''
      else if includesStr t ''charge'' \<or> includesStr t ''fee'' then ''fees''
      else ''uncategorized'')"

record ParserTxn =
  pt_date :: string
  pt_description :: string
  pt_amount :: real
  pt_drCr :: DrCr
  pt_currency :: string
  pt_category :: string
  pt_confidence :: real
  pt_sourceParser :: string

definition jsLines :: "string \<Rightarrow> string list" where
  \<comment> \<open>\<^verbatim>\<open>text.split(/\r?\n/).map((l) => l.replace(/\s+/g, " ").trim()).filter(Boolean)\<close>\<close>
  "jsLines text =
     filter (\<lambda>l. l \<noteq> [])
       (map (\<lambda>l. trim (replaceAll spacesRe '' '' l))
          (split (Seq (Opt (Chr (CHR 0x0D))) (Chr (CHR 0x0A))) text))"

definition amountRe :: re where
  \<comment> \<open>\<^verbatim>\<open>-?\d[\d,]*\.\d{1,2}\<close>\<close>
  "amountRe =
     Seq (Opt (Chr CHR ''-'')) (Seq (Cls isDigit) (Seq (Star (Cls (\<lambda>c. isDigit c \<or> c = CHR '','')))
       (Seq (Chr CHR ''.'') (Rep12 (Cls isDigit)))))"

definition dot :: re where
  \<comment> \<open>\<^verbatim>\<open>.\<close>\<close>
  "dot = Cls (\<lambda>c. \<not> isLineTerminator c)"

definition lastThreeOf :: "'a list \<Rightarrow> 'a list" where
  \<comment> \<open>\<^verbatim>\<open>xs.slice(-3)\<close>\<close>
  "lastThreeOf xs = drop (length xs - 3) xs"

definition firstTailIndexOf :: "(nat \<times> string) list \<Rightarrow> string \<Rightarrow> nat" where
  "firstTailIndexOf amountMatches restRaw =
     (if length amountMatches \<ge> 3 then fst (amountMatches ! (length amountMatches - 3))
      else if length amountMatches \<ge> 2 then fst (amountMatches ! (length amountMatches - 2))
      else if length amountMatches \<ge> 1 then fst (amountMatches ! (length amountMatches - 1))
      else length restRaw)"

section \<open>The generic strategy (\<^verbatim>\<open>parsers/generic.ts\<close>)\<close>

record ParsedRow =
  rdate :: string
  particulars :: string
  withdrawal :: "real option"
  deposit :: "real option"
  txnAmount :: "real option"
  balance :: "real option"

definition looksLikeHeader :: "string \<Rightarrow> bool" where
  "looksLikeHeader line =
     (let l = trim (replaceAll spacesRe '' '' (toLowerCase line));
          hasDateCols = ((includesStr l ''date'' \<and> includesStr l ''value date'')
                          \<or> includesStr l ''transaction date'');
          hasDescCol = (includesStr l ''particular'' \<or> includesStr l ''remarks''
                          \<or> includesStr l ''transaction remarks'')
      in hasDateCols \<and> hasDescCol \<and> includesStr l ''withdraw'' \<and> includesStr l ''deposit''
           \<and> includesStr l ''balance'')"

definition rowRe :: re where
  \<comment> \<open>\<^verbatim>\<open>(?:\d+\s+)?(DATE_TOKEN)(?:\s+(DATE_TOKEN))?\s+(.*)\<close>, between \<^verbatim>\<open>^\<close> and \<^verbatim>\<open>$\<close>\<close>
  "rowRe =
     Seq (Opt (Seq (Plus (Cls isDigit)) (Plus (Cls isSpace))))
       (Seq (Grp 1 DATE_TOKEN)
          (Seq (Opt (Seq (Plus (Cls isSpace)) (Grp 2 DATE_TOKEN)))
             (Seq (Plus (Cls isSpace)) (Grp 3 (Star dot)))))"

definition newRow :: "string \<Rightarrow> string \<Rightarrow> ParsedRow" where
  \<comment> \<open>the row that \<^verbatim>\<open>parseRows\<close> starts at a line matching \<^verbatim>\<open>rowRe\<close>, from \<^verbatim>\<open>m[1]\<close> and \<^verbatim>\<open>m[3]\<close>\<close>
  "newRow dateRaw restRaw =
     (let amountMatches = matchAll amountRe restRaw;
          amountValues = List.map_filter (\<lambda>a. parseAmountToken (snd a)) amountMatches;
          lastThree = lastThreeOf amountValues;
          firstTailIndex = firstTailIndexOf amountMatches restRaw
      in \<lparr>rdate = toIsoDate dateRaw,
          particulars = trim (replaceAll spacesRe '' '' (take firstTailIndex restRaw)),
          withdrawal = (if length lastThree = 3 then Some (lastThree ! 0) else None),
          deposit = (if length lastThree = 3 then Some (lastThree ! 1) else None),
          txnAmount = (if length lastThree = 2 then Some (lastThree ! 0) else None),
          balance = (if length lastThree > 0 then Some (lastThree ! (length lastThree - 1)) else None)\<rparr>)"

record 'r RowScan =
  rows :: "'r list"
  inTable :: bool
  current :: "'r option"

definition pushCurrent :: "'r RowScan \<Rightarrow> 'r list" where
  \<comment> \<open>\<^verbatim>\<open>if (current) rows.push(current)\<close>\<close>
  "pushCurrent st = (case current st of Some c \<Rightarrow> rows st @ [c] | None \<Rightarrow> rows st)"

definition parseRowsStep :: "ParsedRow RowScan \<Rightarrow> string \<Rightarrow> ParsedRow RowScan" where
  \<comment> \<open>one turn of the loop over the lines\<close>
  "parseRowsStep st line =
     (if \<not> inTable st \<and> looksLikeHeader line then st\<lparr>inTable := True\<rparr>
      else if \<not> inTable st then st
      else (case matchAnchored rowRe line of
              Some m \<Rightarrow> st\<lparr>rows := pushCurrent st, current := Some (newRow (grp m 1) (grp m 3))\<rparr>
            | None \<Rightarrow>
                (case current st of
                   Some c \<Rightarrow> st\<lparr>current := Some (c\<lparr>particulars := trim (particulars c @ '' '' @ line)\<rparr>)\<rparr>
                 | None \<Rightarrow> st)))"

definition parseRowsOver :: "string list \<Rightarrow> ParsedRow list" where
  \<comment> \<open>the loop of \<^verbatim>\<open>parseRows\<close> over the lines, and what follows it\<close>
  "parseRowsOver ls =
     (let st = foldl parseRowsStep \<lparr>rows = [], inTable = False, current = None\<rparr> ls
      in filter (\<lambda>r. length (particulars r) > 0) (pushCurrent st))"

definition parseRows :: "string \<Rightarrow> ParsedRow list" where
  "parseRows text = parseRowsOver (jsLines text)"

definition creditHintRe :: re where
  \<comment> \<open>\<^verbatim>\<open>/(salary|interest|refund|credit|cr\b|deposit|cashback|received)/i\<close>\<close>
  "creditHintRe =
     Alts [LitI ''salary'', LitI ''interest'', LitI ''refund'', LitI ''credit'', Seq (LitI ''cr'') WordB,
           LitI ''deposit'', LitI ''cashback'', LitI ''received'']"

definition isOpeningBalance :: "string \<Rightarrow> bool" where
  \<comment> \<open>\<^verbatim>\<open>particulars.toLowerCase().includes("opening balance")\<close>\<close>
  "isOpeningBalance p = includesStr (toLowerCase p) ''opening balance''"

definition hasPositive :: "real option \<Rightarrow> bool" where
  \<comment> \<open>\<^verbatim>\<open>typeof v === "number" && v > 0\<close>\<close>
  "hasPositive v = (case v of Some x \<Rightarrow> x > 0 | None \<Rightarrow> False)"

definition genericAmount :: "ParsedRow \<Rightarrow> real option \<Rightarrow> real option" where
  \<comment> \<open>the chain that sets \<^verbatim>\<open>amount\<close> in \<^verbatim>\<open>rowsToTxns\<close>; \<open>None\<close> is its final \<^verbatim>\<open>continue\<close>\<close>
  "genericAmount r prevBalance =
     (if hasPositive (deposit r) \<and> hasPositive (withdrawal r) then Some (the (deposit r) - the (withdrawal r))
      else if hasPositive (deposit r) then Some (the (deposit r))
      else if hasPositive (withdrawal r) then Some (- the (withdrawal r))
      else if balance r \<noteq> None \<and> prevBalance \<noteq> None then Some (the (balance r) - the prevBalance)
      else if txnAmount r \<noteq> None
      then (if test creditHintRe (particulars r) then Some \<bar>the (txnAmount r)\<bar> else Some (- \<bar>the (txnAmount r)\<bar>))
      else None)"

fun rowsToTxnsFrom :: "real option \<Rightarrow> ParsedRow list \<Rightarrow> ParserTxn list" where
  "rowsToTxnsFrom prevBalance [] = []"
| "rowsToTxnsFrom prevBalance (r # rs) =
     (if isOpeningBalance (particulars r)
      then rowsToTxnsFrom (if balance r \<noteq> None then balance r else prevBalance) rs
      else (case genericAmount r prevBalance of
              None \<Rightarrow> rowsToTxnsFrom prevBalance rs
            | Some amt \<Rightarrow>
                \<lparr>pt_date = rdate r, pt_description = particulars r, pt_amount = amt,
                 pt_drCr = (if amt \<ge> 0 then CR else DR), pt_currency = ''INR'',
                 pt_category = inferCategory (particulars r),
                 pt_confidence = (if hasPositive (deposit r) \<or> hasPositive (withdrawal r) then 0.84 else 0.68),
                 pt_sourceParser = ''generic-v1''\<rparr>
                # rowsToTxnsFrom (if balance r \<noteq> None then balance r else prevBalance) rs))"

definition rowsToTxns :: "ParsedRow list \<Rightarrow> ParserTxn list" where
  "rowsToTxns rs = rowsToTxnsFrom None rs"

definition genericCanParse :: "string \<Rightarrow> real" where
  "genericCanParse text =
     (let lower = toLowerCase text in
      if includesStr lower ''value date'' \<and> includesStr lower ''withdraw'' \<and> includesStr lower ''deposit''
      then 0.75
      else if includesStr lower ''transaction date'' \<and> includesStr lower ''withdraw'' then 0.55
      else 0.2)"

definition genericParse :: "string \<Rightarrow> ParserTxn list" where
  "genericParse text = rowsToTxns (parseRows text)"

section \<open>The ICICI strategy (\<^verbatim>\<open>parsers/icici.ts\<close>)\<close>

definition iciciRowRe :: re where
  \<comment> \<open>\<^verbatim>\<open>(?:\d+\s+)?(DATE_TOKEN)\s+(.*)\<close>, between \<^verbatim>\<open>^\<close> and \<^verbatim>\<open>$\<close>\<close>
  "iciciRowRe =
     Seq (Opt (Seq (Plus (Cls isDigit)) (Plus (Cls isSpace))))
       (Seq (Grp 1 DATE_TOKEN) (Seq (Plus (Cls isSpace)) (Grp 2 (Star dot))))"

definition iciciCreditHintRe :: re where
  \<comment> \<open>\<^verbatim>\<open>/(salary|interest|refund|credit|cashback|received)/i\<close>\<close>
  "iciciCreditHintRe =
     Alts [LitI ''salary'', LitI ''interest'', LitI ''refund'', LitI ''credit'', LitI ''cashback'',
           LitI ''received'']"

definition iciciHeaderWordRe :: re where
  \<comment> \<open>\<^verbatim>\<open>/transaction date|withdrawal amount|deposit amount|balance/i\<close>\<close>
  "iciciHeaderWordRe =
     Alts [LitI ''transaction date'', LitI ''withdrawal amount'', LitI ''deposit amount'', LitI ''balance'']"

definition iciciColumns :: "real list \<Rightarrow> real option \<Rightarrow> string \<Rightarrow> real option \<times> real option" where
  \<comment> \<open>(\<^verbatim>\<open>withdrawal\<close>, \<^verbatim>\<open>deposit\<close>) of a line with at least two amounts\<close>
  "iciciColumns values prevBalance restText =
     (let bal = values ! (length values - 1);
          prev1 = (if length values \<ge> 2 then values ! (length values - 2) else 0);
          prev2 = (if length values \<ge> 3 then Some (values ! (length values - 3)) else None)
      in case prev2 of
           Some p2 \<Rightarrow> (if p2 > 0 then Some p2 else None, if prev1 > 0 then Some prev1 else None)
         | None \<Rightarrow>
             (case prevBalance of
                Some pb \<Rightarrow>
                  (let delta = bal - pb
                   in if delta \<ge> 0 then (None, Some \<bar>delta\<bar>) else (Some \<bar>delta\<bar>, None))
              | None \<Rightarrow>
                  if test iciciCreditHintRe restText then (None, Some \<bar>prev1\<bar>) else (Some \<bar>prev1\<bar>, None)))"

definition orZero :: "real option \<Rightarrow> real" where
  \<comment> \<open>\<^verbatim>\<open>v ?? 0\<close>\<close>
  "orZero v = (case v of Some x \<Rightarrow> x | None \<Rightarrow> 0)"

definition iciciLine :: "real option \<Rightarrow> string \<Rightarrow> (ParserTxn \<times> real) option" where
  \<comment> \<open>one turn of the loop of \<^verbatim>\<open>parseIciciRows\<close>: \<open>None\<close> is a \<^verbatim>\<open>continue\<close>, otherwise the
      transaction pushed and the balance that becomes \<^verbatim>\<open>prevBalance\<close>\<close>
  "iciciLine prevBalance line =
     (case matchAnchored iciciRowRe line of
        None \<Rightarrow> None
      | Some m \<Rightarrow>
          (let dateIso = toIsoDate (grp m 1);
               restText = grp m 2;
               amountMatches = matchAll amountRe restText
           in if length amountMatches < 2 then None
              else (let values = List.map_filter (\<lambda>a. parseAmountToken (snd a)) amountMatches
                    in if length values < 2 then None
                       else (let bal = values ! (length values - 1);
                                 wd = iciciColumns values prevBalance restText;
                                 firstTailIndex =
                                   (if length amountMatches \<ge> 3
                                    then fst (amountMatches ! (length amountMatches - 3))
                                    else fst (amountMatches ! (length amountMatches - 2)));
                                 description = trim (replaceAll spacesRe '' '' (take firstTailIndex restText))
                             in if description = [] \<or> test iciciHeaderWordRe description then None
                                else (let amt = orZero (snd wd) - orZero (fst wd)
                                      in Some (\<lparr>pt_date = dateIso, pt_description = description,
                                                 pt_amount = amt,
                                                 pt_drCr = (if amt \<ge> 0 then CR else DR),
                                                 pt_currency = ''INR'',
                                                 pt_category = inferCategory description,
                                                 pt_confidence = 0.86,
                                                 pt_sourceParser = ''icici-v1''\<rparr>, bal))))))"

fun parseIciciFrom :: "real option \<Rightarrow> string list \<Rightarrow> ParserTxn list" where
  "parseIciciFrom prevBalance [] = []"
| "parseIciciFrom prevBalance (line # lines) =
     (case iciciLine prevBalance line of
        None \<Rightarrow> parseIciciFrom prevBalance lines
      | Some (txn, bal) \<Rightarrow> txn # parseIciciFrom (Some bal) lines)"

definition parseIciciRows :: "string \<Rightarrow> ParserTxn list" where
  "parseIciciRows text = parseIciciFrom None (jsLines text)"

definition iciciCanParse :: "string \<Rightarrow> real" where
  "iciciCanParse text =
     (let l = toLowerCase text in
      if includesStr l ''icici bank'' \<and> includesStr l ''transaction remarks'' then 0.95
      else if includesStr l ''icici'' \<and> includesStr l ''withdrawal amount'' \<and> includesStr l ''deposit amount''
      then 0.8
      else 0.05)"

section \<open>The registry (\<^verbatim>\<open>parsers/index.ts\<close>)\<close>

text \<open>
  A strategy is a pair of functions that may throw: each answers a thrown value
  (\<open>Inl\<close>) or a result (\<open>Inr\<close>). The loop of \<^verbatim>\<open>runParserPipeline\<close> has no
  \<^verbatim>\<open>try\<close>, so a thrown value ends it.
\<close>

datatype thrown = Thrown string

record StatementParser =
  sp_id :: string
  canParse :: "string \<Rightarrow> thrown + real"
  parse :: "string \<Rightarrow> thrown + ParserTxn list"

record ParserRunResult =
  parserId :: string
  score :: real
  txns :: "ParserTxn list"

definition parserScore :: "ParserTxn list \<Rightarrow> real \<Rightarrow> real" where
  "parserScore ts hint =
     (if length ts = 0 then hint * 5
      else (let avgConf = foldl (\<lambda>s t. s + pt_confidence t) 0 ts / real (length ts)
            in real (length ts) * (0.55 + avgConf * 0.45) + hint * 25))"

fun runParsers :: "ParserRunResult \<Rightarrow> StatementParser list \<Rightarrow> string \<Rightarrow> thrown + ParserRunResult" where
  \<comment> \<open>the loop over the registry, from the current \<^verbatim>\<open>best\<close>\<close>
  "runParsers best [] text = Inr best"
| "runParsers best (parser # ps) text =
     (case canParse parser text of
        Inl e \<Rightarrow> Inl e
      | Inr hint \<Rightarrow>
          if hint \<le> 0 then runParsers best ps text
          else (case parse parser text of
                  Inl e \<Rightarrow> Inl e
                | Inr ts \<Rightarrow>
                    if parserScore ts hint > score best
                    then runParsers \<lparr>parserId = sp_id parser, score = parserScore ts hint, txns = ts\<rparr> ps text
                    else runParsers best ps text))"

definition runParserPipelineOver :: "StatementParser list \<Rightarrow> string \<Rightarrow> thrown + ParserRunResult" where
  \<comment> \<open>\<^verbatim>\<open>runParserPipeline\<close> with the registry as a parameter\<close>
  "runParserPipelineOver registry text = runParsers \<lparr>parserId = ''none'', score = 0, txns = []\<rparr> registry text"

definition iciciStatementParser :: StatementParser where
  "iciciStatementParser =
     \<lparr>sp_id = ''icici-v1'', canParse = (\<lambda>text. Inr (iciciCanParse text)),
      parse = (\<lambda>text. Inr (parseIciciRows text))\<rparr>"

definition genericStatementParser :: StatementParser where
  "genericStatementParser =
     \<lparr>sp_id = ''generic-v1'', canParse = (\<lambda>text. Inr (genericCanParse text)),
      parse = (\<lambda>text. Inr (genericParse text))\<rparr>"

definition PARSERS :: "StatementParser list" where
  "PARSERS = [iciciStatementParser, genericStatementParser]"

definition runParserPipeline :: "string \<Rightarrow> thrown + ParserRunResult" where
  "runParserPipeline text = runParserPipelineOver PARSERS text"

section \<open>The analyze route's own row parser and sign resolver (\<^verbatim>\<open>api/analyze/route.ts\<close>)\<close>

record RouteRow = ParsedRow +
  valueDate :: "string option"
  balanceType :: "DrCr option"

definition unsignedDecimalRe :: re where
  \<comment> \<open>\<^verbatim>\<open>\d+(?:\.\d{1,2})?\<close>\<close>
  "unsignedDecimalRe = Seq (Plus (Cls isDigit)) (Opt (Seq (Chr CHR ''.'') (Rep12 (Cls isDigit))))"

definition parseAmountTokenRoute :: "string \<Rightarrow> real option" where
  \<comment> \<open>the route's copy of \<^verbatim>\<open>parseAmountToken\<close>: its test has no sign\<close>
  "parseAmountTokenRoute token =
     (let normalized = normalizeAmountToken token
      in if \<not> fullMatch unsignedDecimalRe normalized then None
         else Some (decimalValue normalized))"

definition drCrOf :: "string \<Rightarrow> DrCr option" where
  \<comment> \<open>an upper-cased \<^verbatim>\<open>DR\<close> or \<^verbatim>\<open>CR\<close> as a value of the union type\<close>
  "drCrOf s = (if s = ''DR'' then Some DR else if s = ''CR'' then Some CR else None)"

definition drCrWordRe :: re where
  \<comment> \<open>\<^verbatim>\<open>(DR|CR)\<close> under the \<^verbatim>\<open>i\<close> flag\<close>
  "drCrWordRe = Grp 1 (Alt (LitI ''DR'') (LitI ''CR''))"

definition balanceTypeOf :: "string \<Rightarrow> DrCr option" where
  "balanceTypeOf restRaw =
     (let tokens = filter (\<lambda>t. t \<noteq> []) (split (Chr CHR '' '') restRaw)
      in if length tokens > 0 \<and> fullMatch drCrWordRe (last tokens) then drCrOf (toUpperCase (last tokens))
         else (case search (Seq WordB (Seq drCrWordRe WordB)) restRaw of
                 Some crdr \<Rightarrow> drCrOf (toUpperCase (grp crdr 1))
               | None \<Rightarrow> None))"

definition newRouteRow :: "string \<Rightarrow> string \<Rightarrow> string \<Rightarrow> RouteRow" where
  \<comment> \<open>the row that \<^verbatim>\<open>parseStatementRows\<close> starts at a matching line, from the three groups\<close>
  "newRouteRow dateRaw valueDateRaw restRaw =
     (let amountMatches = matchAll amountRe restRaw;
          amountValues = List.map_filter (\<lambda>m. parseAmountTokenRoute (snd m)) amountMatches;
          lastThree = lastThreeOf amountValues;
          firstTailIndex = firstTailIndexOf amountMatches restRaw
      in \<lparr>rdate = toIsoDate dateRaw,
          particulars = trim (replaceAll spacesRe '' '' (take firstTailIndex restRaw)),
          withdrawal = (if length lastThree = 3 then Some (lastThree ! 0) else None),
          deposit = (if length lastThree = 3 then Some (lastThree ! 1) else None),
          txnAmount = (if length lastThree = 2 then Some (lastThree ! 0) else None),
          balance = (if length lastThree > 0 then Some (lastThree ! (length lastThree - 1)) else None),
          valueDate = (if valueDateRaw \<noteq> [] then Some (toIsoDate valueDateRaw) else None),
          balanceType = balanceTypeOf restRaw\<rparr>)"

definition parseStatementRowsStep :: "RouteRow RowScan \<Rightarrow> string \<Rightarrow> RouteRow RowScan" where
  "parseStatementRowsStep st line =
     (if \<not> inTable st \<and> looksLikeHeader line then st\<lparr>inTable := True\<rparr>
      else if \<not> inTable st then st
      else (case matchAnchored rowRe line of
              Some txStart \<Rightarrow>
                st\<lparr>rows := pushCurrent st,
                   current := Some (newRouteRow (grp txStart 1) (grp txStart 2) (grp txStart 3))\<rparr>
            | None \<Rightarrow>
                (case current st of
                   Some c \<Rightarrow>
                     if \<not> looksLikeHeader line
                     then st\<lparr>current := Some (c\<lparr>particulars := trim (particulars c @ '' '' @ line)\<rparr>)\<rparr>
                     else st
                 | None \<Rightarrow> st)))"

definition parseStatementRowsOver :: "string list \<Rightarrow> RouteRow list" where
  \<comment> \<open>the loop of \<^verbatim>\<open>parseStatementRows\<close> over the lines, and what follows it\<close>
  "parseStatementRowsOver ls =
     (let st = foldl parseStatementRowsStep \<lparr>rows = [], inTable = False, current = None\<rparr> ls
      in filter (\<lambda>r. length (particulars r) > 0) (pushCurrent st))"

definition parseStatementRows :: "string \<Rightarrow> RouteRow list" where
  "parseStatementRows text = parseStatementRowsOver (jsLines text)"

definition routeAmount :: "RouteRow \<Rightarrow> real option \<Rightarrow> real" where
  \<comment> \<open>the chain that sets \<^verbatim>\<open>amount\<close> in \<^verbatim>\<open>toTxns\<close>, from its initial 0\<close>
  "routeAmount r prevBalance =
     (if hasPositive (deposit r) \<and> hasPositive (withdrawal r) then the (deposit r) - the (withdrawal r)
      else if hasPositive (deposit r) then the (deposit r)
      else if hasPositive (withdrawal r) then - the (withdrawal r)
      else if balance r \<noteq> None \<and> prevBalance \<noteq> None then the (balance r) - the prevBalance
      else if txnAmount r \<noteq> None
      then (if test creditHintRe (particulars r) then \<bar>the (txnAmount r)\<bar> else - \<bar>the (txnAmount r)\<bar>)
      else if balance r \<noteq> None
      then (if balanceType r = Some CR then \<bar>the (balance r)\<bar> else - \<bar>the (balance r)\<bar>)
      else 0)"

definition routePrevBalance :: "RouteRow \<Rightarrow> real option \<Rightarrow> real option" where
  \<comment> \<open>\<^verbatim>\<open>prevBalance\<close> after the row\<close>
  "routePrevBalance r prevBalance =
     (if balance r \<noteq> None
      then Some (if balanceType r = Some DR then - \<bar>the (balance r)\<bar> else \<bar>the (balance r)\<bar>)
      else prevBalance)"

fun toTxnsFrom :: "nat \<Rightarrow> real option \<Rightarrow> RouteRow list \<Rightarrow> Txn list" where
  \<comment> \<open>the loop of \<^verbatim>\<open>toTxns\<close> from index \<open>i\<close>\<close>
  "toTxnsFrom i prevBalance [] = []"
| "toTxnsFrom i prevBalance (r # rs) =
     (if isOpeningBalance (particulars r)
      then toTxnsFrom (i + 1) (routePrevBalance r prevBalance) rs
      else \<lparr>txn_id = rdate r @ ''-'' @ showNat (i + 1), date = rdate r, description = particulars r,
            amount = routeAmount r prevBalance,
            drCr = Some (if routeAmount r prevBalance \<ge> 0 then CR else DR),
            sourceParser = None, currency = ''INR'', category = inferCategory (particulars r),
            confidence = (if hasPositive (deposit r) \<or> hasPositive (withdrawal r) then 0.82 else 0.62),
            txn_merchant = None, txn_isSubscription = None\<rparr>
           # toTxnsFrom (i + 1) (routePrevBalance r prevBalance) rs)"

definition toTxns :: "RouteRow list \<Rightarrow> Txn list" where
  "toTxns rs = toTxnsFrom 0 None rs"

fun txnsFromIndex :: "string \<Rightarrow> nat \<Rightarrow> ParserTxn list \<Rightarrow> Txn list" where
  \<comment> \<open>\<^verbatim>\<open>result.txns.map((t, i) => ...)\<close> from index \<open>i\<close>\<close>
  "txnsFromIndex pid i [] = []"
| "txnsFromIndex pid i (t # ts) =
     \<lparr>txn_id = pt_date t @ ''-'' @ pid @ ''-'' @ showNat (i + 1), date = pt_date t,
      description = pt_description t, amount = pt_amount t, drCr = Some (pt_drCr t),
      sourceParser = Some (pt_sourceParser t), currency = pt_currency t, category = pt_category t,
      confidence = pt_confidence t, txn_merchant = None, txn_isSubscription = None\<rparr>
     # txnsFromIndex pid (i + 1) ts"

definition parseTransactionsFromText :: "string \<Rightarrow> thrown + Txn list" where
  "parseTransactionsFromText text =
     (case runParserPipeline text of
        Inl e \<Rightarrow> Inl e
      | Inr result \<Rightarrow> Inr (txnsFromIndex (parserId result) 0 (txns result)))"

section \<open>Outcomes of a strategy on a text\<close>

definition throwsOn :: "StatementParser \<Rightarrow> string \<Rightarrow> thrown option" where
  \<comment> \<open>what the loop's turn for the strategy throws, if anything: \<^verbatim>\<open>parse\<close> is only called
      after a hint above 0\<close>
  "throwsOn p text =
     (case canParse p text of
        Inl e \<Rightarrow> Some e
      | Inr hint \<Rightarrow> if hint \<le> 0 then None
                    else (case parse p text of Inl e \<Rightarrow> Some e | Inr ts \<Rightarrow> None))"

fun firstThrow :: "StatementParser list \<Rightarrow> string \<Rightarrow> thrown option" where
  "firstThrow [] text = None"
| "firstThrow (p # ps) text = (case throwsOn p text of Some e \<Rightarrow> Some e | None \<Rightarrow> firstThrow ps text)"

definition hintOf :: "StatementParser \<Rightarrow> string \<Rightarrow> real" where
  "hintOf p text = (case canParse p text of Inr hint \<Rightarrow> hint | Inl e \<Rightarrow> 0)"

definition txnsOf :: "StatementParser \<Rightarrow> string \<Rightarrow> ParserTxn list" where
  "txnsOf p text = (case parse p text of Inr ts \<Rightarrow> ts | Inl e \<Rightarrow> [])"

definition scoreOf :: "StatementParser \<Rightarrow> string \<Rightarrow> real" where
  "scoreOf p text = parserScore (txnsOf p text) (hintOf p text)"

definition resultOf :: "StatementParser \<Rightarrow> string \<Rightarrow> ParserRunResult" where
  "resultOf p text = \<lparr>parserId = sp_id p, score = scoreOf p text, txns = txnsOf p text\<rparr>"

definition firstBest :: "real \<Rightarrow> StatementParser list \<Rightarrow> StatementParser \<Rightarrow> StatementParser list \<Rightarrow> string \<Rightarrow> bool" where
  \<comment> \<open>\<open>w\<close>, between \<open>pre\<close> and \<open>post\<close>, ran, scored above \<open>bar\<close>, strictly above every
      strategy that ran before it and at least as high as every one that ran after it\<close>
  "firstBest bar pre w post text =
     (hintOf w text > 0 \<and> bar < scoreOf w text
      \<and> (\<forall>p \<in> set pre. hintOf p text > 0 \<longrightarrow> scoreOf p text < scoreOf w text)
      \<and> (\<forall>p \<in> set post. hintOf p text > 0 \<longrightarrow> scoreOf p text \<le> scoreOf w text))"

definition noneBeats :: "real \<Rightarrow> StatementParser list \<Rightarrow> string \<Rightarrow> bool" where
  \<comment> \<open>no strategy of \<open>ps\<close> that ran scored above \<open>bar\<close>\<close>
  "noneBeats bar ps text = (\<forall>p \<in> set ps. hintOf p text > 0 \<longrightarrow> scoreOf p text \<le> bar)"


definition throwingParser :: StatementParser where
  \<comment> \<open>a strategy that recognises every text and whose \<^verbatim>\<open>parse\<close> throws\<close>
  "throwingParser =
     \<lparr>sp_id = ''broken'', canParse = (\<lambda>text. Inr 1), parse = (\<lambda>text. Inl (Thrown ''boom''))\<rparr>"

definition constParser :: "string \<Rightarrow> real \<Rightarrow> ParserTxn list \<Rightarrow> StatementParser" where
  \<comment> \<open>a strategy with a fixed hint and a fixed result\<close>
  "constParser name hint ts = \<lparr>sp_id = name, canParse = (\<lambda>text. Inr hint), parse = (\<lambda>text. Inr ts)\<rparr>"

definition balanceOnly :: "'a ParsedRow_scheme \<Rightarrow> real \<Rightarrow> bool" where
  \<comment> \<open>a row that carries a balance and no other amount\<close>
  "balanceOnly r b = (withdrawal r = None \<and> deposit r = None \<and> txnAmount r = None \<and> balance r = Some b)"

definition ex_balance_row :: "DrCr option \<Rightarrow> RouteRow" where
  "ex_balance_row bt =
     \<lparr>rdate = ''2024-01-05'', particulars = ''ATM'', withdrawal = None, deposit = None,
      txnAmount = None, balance = Some 500, valueDate = None, balanceType = bt\<rparr>"

definition ex_generic_balance_row :: ParsedRow where
  "ex_generic_balance_row =
     \<lparr>rdate = ''2024-01-05'', particulars = ''ATM'', withdrawal = None, deposit = None,
      txnAmount = None, balance = Some 500\<rparr>"

section \<open>Reference notions for the insights\<close>


definition ex_debit :: "string \<Rightarrow> string \<Rightarrow> string \<Rightarrow> real \<Rightarrow> Txn" where
  \<comment> \<open>a debit of the given magnitude\<close>
  "ex_debit n d descr a =
     \<lparr>txn_id = n, date = d, description = descr, amount = - a, drCr = Some DR,
      sourceParser = Some ''generic-v1'', currency = ''INR'', category = ''uncategorized'',
      confidence = 0.84, txn_merchant = None, txn_isSubscription = None\<rparr>"








definition monthStep :: "(string \<times> real \<times> real) list \<Rightarrow> Txn \<Rightarrow> (string \<times> real \<times> real) list" where
  \<comment> \<open>one turn of the loop that fills \<^verbatim>\<open>monthMap\<close>\<close>
  "monthStep m t =
     (case monthKey (date t) of
        None \<Rightarrow> m
      | Some mk \<Rightarrow>
          (case (case map_of m mk of None \<Rightarrow> (0, 0) | Some e \<Rightarrow> e) of
             (income, expense) \<Rightarrow>
               if (case drCr t of Some k \<Rightarrow> k | None \<Rightarrow> if amount t \<ge> 0 then CR else DR) = CR
               then AList.update mk (income + \<bar>amount t\<bar>, expense) m
               else AList.update mk (income, expense + \<bar>amount t\<bar>) m))"

definition ex_headerless :: string where
  \<comment> \<open>a text of one line, which is a row and no header\<close>
  "ex_headerless = ''01/01/2024 COFFEE 100.00 900.00''"

section \<open>Reference notions for the amount columns\<close>







section \<open>Totals\<close>

lemma sumAbs_foldl: "foldl (\<lambda>sum t. sum + \<bar>amount t\<bar>) a ts = a + sum_list (map (\<lambda>t. \<bar>amount t\<bar>) ts)"
  by (induction ts arbitrary: a) simp_all

lemma sumAbs_sum_list: "sumAbs ts = sum_list (map (\<lambda>t. \<bar>amount t\<bar>) ts)"
  by (simp add: sumAbs_def sumAbs_foldl)

lemma sumAbs_nonneg: "0 \<le> sumAbs ts"
  unfolding sumAbs_sum_list by (rule sum_list_nonneg) auto

lemma sumAbs_filter_snoc: "sumAbs (filter P ts) \<le> sumAbs (filter P (ts @ [t]))"
  by (simp add: sumAbs_sum_list)

text \<open>
  C9. Appending a transaction never decreases \<open>totalDebits + totalCredits\<close>, and
  \<open>netFlow\<close> never exceeds \<open>totalCredits\<close>.
\<close>

theorem totals_monotone:
  "totalDebits (buildInsights L) + totalCredits (buildInsights L)
     \<le> totalDebits (buildInsights (L @ [t])) + totalCredits (buildInsights (L @ [t]))
   \<and> netFlow (buildInsights L) \<le> totalCredits (buildInsights L)"
proof -
  have d: "sumAbs (filter isDebit L) \<le> sumAbs (filter isDebit (L @ [t]))"
    by (rule sumAbs_filter_snoc)
  have c: "sumAbs (filter isCredit L) \<le> sumAbs (filter isCredit (L @ [t]))"
    by (rule sumAbs_filter_snoc)
  have n: "0 \<le> sumAbs (filter isDebit L)"
    by (rule sumAbs_nonneg)
  from d c n show ?thesis
    by (simp add: buildInsights_def Let_def)
qed

definition ex_rent :: Txn where
  "ex_rent = \<lparr>txn_id = ''2024-01-01-1'', date = ''2024-01-01'', description = ''RENT'', amount = - 100,
     drCr = Some DR, sourceParser = None, currency = ''INR'', category = ''uncategorized'',
     confidence = 0.84, txn_merchant = None, txn_isSubscription = None\<rparr>"

definition ex_salary :: Txn where
  "ex_salary = \<lparr>txn_id = ''2024-01-02-2'', date = ''2024-01-02'', description = ''SALARY'', amount = 50,
     drCr = None, sourceParser = None, currency = ''INR'', category = ''income'',
     confidence = 0.84, txn_merchant = None, txn_isSubscription = None\<rparr>"

theorem totals_monotone_witness:
  "totalDebits (buildInsights [ex_rent]) + totalCredits (buildInsights [ex_rent]) = 100
   \<and> totalDebits (buildInsights ([ex_rent] @ [ex_salary]))
       + totalCredits (buildInsights ([ex_rent] @ [ex_salary])) = 150
   \<and> netFlow (buildInsights [ex_rent]) = - 100"
  using totals_monotone [of "[ex_rent]" ex_salary]
  by (simp add: buildInsights_def Let_def isDebit_def isCredit_def sumAbs_def ex_rent_def ex_salary_def)

section \<open>The sign resolver on a balance-only row\<close>

lemma routeAmount_balanceOnly:
  "balanceOnly r b \<Longrightarrow> routeAmount r None = (if balanceType r = Some CR then \<bar>b\<bar> else - \<bar>b\<bar>)"
  by (simp add: balanceOnly_def routeAmount_def hasPositive_def)

lemma genericAmount_balanceOnly: "balanceOnly g b \<Longrightarrow> genericAmount g None = None"
  by (simp add: balanceOnly_def genericAmount_def hasPositive_def)

text \<open>
  C2, as the code has it. For a row that carries only a balance, while no previous
  balance is known: \<^verbatim>\<open>toTxns\<close> of the analyze route emits a transaction (unless the row
  is an opening-balance row) whose amount is \<open>+|balance|\<close> when \<open>balanceType\<close> is \<open>CR\<close>
  and \<open>-|balance|\<close> when it is \<open>DR\<close> or absent; \<^verbatim>\<open>rowsToTxns\<close> of the generic
  strategy, whose rows have no \<open>balanceType\<close>, emits no transaction for the row and
  still knows no previous balance after it.
\<close>

theorem balance_only_row_sign:
  assumes "balanceOnly r b" and "\<not> isOpeningBalance (particulars r)"
    and "balanceOnly g c" and "\<not> isOpeningBalance (particulars g)"
  shows "toTxnsFrom i None (r # rs)
           = hd (toTxnsFrom i None (r # rs)) # toTxnsFrom (i + 1) (routePrevBalance r None) rs
         \<and> amount (hd (toTxnsFrom i None (r # rs)))
             = (if balanceType r = Some CR then \<bar>b\<bar> else - \<bar>b\<bar>)
         \<and> drCr (hd (toTxnsFrom i None (r # rs)))
             = Some (if balanceType r = Some CR then CR else if b = 0 then CR else DR)
         \<and> rowsToTxnsFrom None (g # gs) = rowsToTxnsFrom None gs"
  using assms
  by (auto simp add: routeAmount_balanceOnly genericAmount_balanceOnly)

lemma ATM_not_opening: "\<not> isOpeningBalance ''ATM''"
  by code_simp

theorem balance_only_row_sign_witness:
  "map amount (toTxns [ex_balance_row (Some CR)]) = [500]
   \<and> map amount (toTxns [ex_balance_row (Some DR)]) = [- 500]
   \<and> rowsToTxns [ex_generic_balance_row, ex_generic_balance_row] = []"
  using balance_only_row_sign [of "ex_balance_row (Some CR)" 500 ex_generic_balance_row 500 0 "[]"
      "[ex_generic_balance_row]"]
    balance_only_row_sign [of "ex_balance_row (Some DR)" 500 ex_generic_balance_row 500 0 "[]" "[]"]
    ATM_not_opening
  by (simp add: toTxns_def rowsToTxns_def balanceOnly_def ex_balance_row_def ex_generic_balance_row_def)

theorem balance_only_absent_type_counterexample:
  "map amount (toTxns [ex_balance_row None]) = [- 500]
   \<and> map drCr (toTxns [ex_balance_row None]) = [Some DR]
   \<and> rowsToTxns [ex_generic_balance_row] = []"
  using ATM_not_opening
  by (simp add: toTxns_def rowsToTxns_def ex_balance_row_def ex_generic_balance_row_def
      routeAmount_def genericAmount_def hasPositive_def)

section \<open>The registry: failures and selection\<close>

lemma runParsers_throws:
  "firstThrow ps text = Some e \<Longrightarrow> runParsers best ps text = Inl e"
proof (induction ps arbitrary: best)
  case Nil
  then show ?case by simp
next
  case (Cons p ps)
  then show ?case
    by (auto simp add: throwsOn_def split: sum.splits if_splits option.splits)
qed

lemma runParsers_take:
  "throwsOn p text = None \<Longrightarrow> hintOf p text > 0 \<and> score best < scoreOf p text \<Longrightarrow>
   runParsers best (p # ps) text = runParsers (resultOf p text) ps text"
  by (auto simp add: throwsOn_def hintOf_def scoreOf_def txnsOf_def resultOf_def
      split: sum.splits if_splits)

lemma runParsers_skip:
  "throwsOn p text = None \<Longrightarrow> \<not> (hintOf p text > 0 \<and> score best < scoreOf p text) \<Longrightarrow>
   runParsers best (p # ps) text = runParsers best ps text"
  by (auto simp add: throwsOn_def hintOf_def scoreOf_def txnsOf_def resultOf_def
      split: sum.splits if_splits)

lemma firstBest_nil:
  "hintOf p text > 0 \<Longrightarrow> bar < scoreOf p text \<Longrightarrow> noneBeats (scoreOf p text) ps text
   \<Longrightarrow> firstBest bar [] p ps text"
  by (simp add: firstBest_def noneBeats_def)

lemma firstBest_cons_new:
  "firstBest (scoreOf p text) pre w post text \<Longrightarrow> bar < scoreOf p text
   \<Longrightarrow> firstBest bar (p # pre) w post text"
  by (simp add: firstBest_def)

lemma firstBest_cons_skip:
  "firstBest bar pre w post text \<Longrightarrow> \<not> (hintOf p text > 0 \<and> bar < scoreOf p text)
   \<Longrightarrow> firstBest bar (p # pre) w post text"
  by (auto simp add: firstBest_def)

lemma noneBeats_cons:
  "noneBeats bar ps text \<Longrightarrow> \<not> (hintOf p text > 0 \<and> bar < scoreOf p text)
   \<Longrightarrow> noneBeats bar (p # ps) text"
  by (auto simp add: noneBeats_def)

lemma runParsers_selects:
  "firstThrow ps text = None \<Longrightarrow>
   (runParsers best ps text = Inr best \<and> noneBeats (score best) ps text)
   \<or> (\<exists>pre w post. ps = pre @ w # post \<and> runParsers best ps text = Inr (resultOf w text)
        \<and> firstBest (score best) pre w post text)"
proof (induction ps arbitrary: best)
  case Nil
  then show ?case by (simp add: noneBeats_def)
next
  case (Cons p ps)
  from Cons.prems have nt: "throwsOn p text = None" and rest: "firstThrow ps text = None"
    by (auto split: option.splits)
  show ?case
  proof (cases "hintOf p text > 0 \<and> score best < scoreOf p text")
    case True
    then have step: "runParsers best (p # ps) text = runParsers (resultOf p text) ps text"
      by (rule runParsers_take [OF nt])
    have sc: "score (resultOf p text) = scoreOf p text" by (simp add: resultOf_def)
    from Cons.IH [OF rest, of "resultOf p text"] show ?thesis
    proof (elim disjE conjE exE)
      assume a: "runParsers (resultOf p text) ps text = Inr (resultOf p text)"
        and b: "noneBeats (score (resultOf p text)) ps text"
      have "firstBest (score best) [] p ps text"
        using True b sc by (simp add: firstBest_nil)
      moreover have "p # ps = [] @ p # ps" by simp
      ultimately show ?thesis using a step by (intro disjI2 exI [of _ "[]"] exI [of _ p] exI [of _ ps]) simp
    next
      fix pre w post
      assume a: "ps = pre @ w # post"
        and b: "runParsers (resultOf p text) ps text = Inr (resultOf w text)"
        and c: "firstBest (score (resultOf p text)) pre w post text"
      have "firstBest (score best) (p # pre) w post text"
        using c True sc by (simp add: firstBest_cons_new)
      then show ?thesis using a b step
        by (intro disjI2 exI [of _ "p # pre"] exI [of _ w] exI [of _ post]) simp
    qed
  next
    case False
    then have step: "runParsers best (p # ps) text = runParsers best ps text"
      by (rule runParsers_skip [OF nt])
    from Cons.IH [OF rest, of best] show ?thesis
    proof (elim disjE conjE exE)
      assume a: "runParsers best ps text = Inr best" and b: "noneBeats (score best) ps text"
      from b False have "noneBeats (score best) (p # ps) text" by (rule noneBeats_cons)
      with a step show ?thesis by simp
    next
      fix pre w post
      assume a: "ps = pre @ w # post"
        and b: "runParsers best ps text = Inr (resultOf w text)"
        and c: "firstBest (score best) pre w post text"
      from c False have "firstBest (score best) (p # pre) w post text" by (rule firstBest_cons_skip)
      then show ?thesis using a b step
        by (intro disjI2 exI [of _ "p # pre"] exI [of _ w] exI [of _ post]) simp
    qed
  qed
qed


lemma PARSERS_never_throw: "firstThrow PARSERS text = None"
  by (simp add: PARSERS_def throwsOn_def iciciStatementParser_def genericStatementParser_def)


lemma runParsers_completes:
  "firstThrow ps text = None \<Longrightarrow> \<exists>res. runParsers best ps text = Inr res"
  using runParsers_selects [of ps _ best] by auto



text \<open>
  C1, as the code has it. The registry loop has no failure isolation. Scanning the
  registry in order, the first strategy whose \<^verbatim>\<open>canParse\<close> throws, or whose hint is above
  0 and whose \<^verbatim>\<open>parse\<close> throws, ends the run with the thrown value; the run completes
  exactly when there is no such strategy. The two registered strategies never throw, so
  \<^verbatim>\<open>runParserPipeline\<close> itself always completes.
\<close>

theorem pipeline_failure_propagates:
  "(case firstThrow registry text of
      Some e \<Rightarrow> runParserPipelineOver registry text = Inl e
    | None \<Rightarrow> (\<exists>res. runParserPipelineOver registry text = Inr res))
   \<and> firstThrow PARSERS text = None
   \<and> (\<exists>res. runParserPipeline text = Inr res)"
proof -
  have "\<exists>res. runParserPipeline text = Inr res"
    unfolding runParserPipeline_def runParserPipelineOver_def
    by (rule runParsers_completes [OF PARSERS_never_throw])
  then show ?thesis
    by (auto simp add: runParserPipelineOver_def runParsers_throws runParsers_completes
        PARSERS_never_throw split: option.splits)
qed

theorem pipeline_failure_propagates_witness:
  "firstThrow [constParser ''A'' 0 [], throwingParser, constParser ''B'' 1 []] ''statement''
     = Some (Thrown ''boom'')
   \<and> runParserPipelineOver [constParser ''A'' 0 [], throwingParser, constParser ''B'' 1 []] ''statement''
       = Inl (Thrown ''boom'')"
  using pipeline_failure_propagates
    [of "[constParser ''A'' 0 [], throwingParser, constParser ''B'' 1 []]" "''statement''"]
  by (simp add: throwsOn_def constParser_def throwingParser_def)

lemma genericParse_x: "genericParse ''x'' = []"
  by code_simp

lemma genericCanParse_x: "genericCanParse ''x'' = 0.2"
  by code_simp

theorem failing_strategy_aborts_counterexample:
  "runParserPipelineOver [throwingParser, genericStatementParser] ''x'' = Inl (Thrown ''boom'')
   \<and> runParserPipelineOver [genericStatementParser] ''x''
       = Inr \<lparr>parserId = ''generic-v1'', score = 1, txns = []\<rparr>"
  by (simp add: runParserPipelineOver_def throwingParser_def genericStatementParser_def
      genericParse_x genericCanParse_x parserScore_def)



section \<open>Unusual spends\<close>







lemma take_sort_key_length: "length (take n (sort_key k xs)) = min n (length xs)"
  by simp








section \<open>Subscription detection\<close>

















section \<open>Dates\<close>

lemma sep_not_digit: "s \<in> set ''./-'' \<Longrightarrow> \<not> isDigit s"
  by (auto simp add: isDigit_def)

lemma digit_not_sep: "isDigit s \<Longrightarrow> s \<notin> set ''./-''"
  by (auto simp add: isDigit_def)

lemma len12: "length xs = 1 \<or> length xs = 2 \<Longrightarrow> (\<exists>a. xs = [a]) \<or> (\<exists>a b. xs = [a, b])"
  by (cases xs; cases "tl xs"; cases "tl (tl xs)") auto

lemma len24: "length xs = 2 \<or> length xs = 4 \<Longrightarrow> (\<exists>a b. xs = [a, b]) \<or> (\<exists>a b c d. xs = [a, b, c, d])"
  by (cases xs; cases "tl xs"; cases "tl (tl xs)"; cases "tl (tl (tl xs))"; cases "tl (tl (tl (tl xs)))") auto

lemma slash_match:
  assumes "list_all isDigit dd" "length dd = 1 \<or> length dd = 2"
    and "list_all isDigit mm" "length mm = 1 \<or> length mm = 2"
    and "list_all isDigit yy" "length yy = 2 \<or> length yy = 4"
    and "s1 \<in> set ''./-''" "s2 \<in> set ''./-''"
  shows "matchAnchored slashDateRe (dd @ s1 # mm @ s2 # yy) = Some [(3, yy), (2, mm), (1, dd)]"
proof -
  from assms(7,8) have nd: "\<not> isDigit s1" "\<not> isDigit s2" by (simp_all add: sep_not_digit)
  from len12 [OF assms(2)] len12 [OF assms(4)] len24 [OF assms(6)] assms(1,3,5,7,8) nd
  show ?thesis
    by (elim disjE exE)
      (simp_all add: matchAnchored_def slashDateRe_def Rep12_def Rep24_def Opt_def dateSepCls_def
        consumed_def digit_not_sep)
qed


lemma alpha_not_digit: "isAlpha c \<Longrightarrow> \<not> isDigit c"
  by (auto simp add: isAlpha_def isUpper_def isLower_def isDigit_def)

lemma digit_not_space: "isDigit c \<Longrightarrow> \<not> isSpace c"
  by (auto simp add: isDigit_def isSpace_def)

lemma digit_not_dash: "isDigit c \<Longrightarrow> c \<noteq> CHR ''-''"
  by (auto simp add: isDigit_def)

lemma len3: "length xs = 3 \<Longrightarrow> \<exists>a b c. xs = [a, b, c]"
  by (cases xs; cases "tl xs"; cases "tl (tl xs)"; cases "tl (tl (tl xs))") auto

lemma monthName_no_slash:
  assumes "list_all isDigit dn" "length dn = 1 \<or> length dn = 2"
    and "list_all isAlpha mon" "length mon = 3"
    and "isSpace t1 \<or> t1 = CHR ''-''"
  shows "matchAnchored slashDateRe (dn @ t1 # mon @ t2 # yn) = None"
proof -
  from assms(5) have nd: "\<not> isDigit t1" using digit_not_space digit_not_dash by blast
  from len12 [OF assms(2)] len3 [OF assms(4)] assms(1,3) nd
  show ?thesis
    by (elim disjE exE)
      (simp_all add: matchAnchored_def slashDateRe_def Rep12_def Rep24_def Opt_def dateSepCls_def
        consumed_def digit_not_sep alpha_not_digit)
qed

lemma monthName_match:
  assumes "list_all isDigit dn" "length dn = 1 \<or> length dn = 2"
    and "list_all isAlpha mon" "length mon = 3"
    and "list_all isDigit yn" "length yn = 2 \<or> length yn = 4"
    and "isSpace t1 \<or> t1 = CHR ''-''" "isSpace t2 \<or> t2 = CHR ''-''"
  shows "matchAnchored monthNameDateRe (dn @ t1 # mon @ t2 # yn) = Some [(3, yn), (2, mon), (1, dn)]"
proof -
  from assms(7) have nd: "\<not> isDigit t1" using digit_not_space digit_not_dash by blast
  from len12 [OF assms(2)] len3 [OF assms(4)] len24 [OF assms(6)] assms(1,3,5,7,8) nd
  show ?thesis
    by (elim disjE exE)
      (simp_all add: matchAnchored_def monthNameDateRe_def Rep12_def Rep24_def Opt_def alpha3_def
        consumed_def digit_not_space digit_not_dash)
qed

lemma digitChar_isDigit: "k < 10 \<Longrightarrow> isDigit (digitChar k)"
proof -
  assume "k < 10"
  then have "k \<in> {0, 1, 2, 3, 4, 5, 6, 7, 8, 9}" by auto
  then show ?thesis by (auto simp add: isDigit_def digitChar_def)
qed

lemma showNat_small: "n < 10 \<Longrightarrow> showNat n = [digitChar n]"
  by (subst showNat.simps) simp

lemma showNat_step: "\<not> n < 10 \<Longrightarrow> showNat n = showNat (n div 10) @ [digitChar (n mod 10)]"
  by (subst showNat.simps) simp

lemma showNat_4:
  assumes "1000 \<le> n" "n < 10000"
  shows "showNat n = [digitChar (n div 1000), digitChar (n div 100 mod 10),
                      digitChar (n div 10 mod 10), digitChar (n mod 10)]"
proof -
  have a: "\<not> n < 10" "\<not> n div 10 < 10" "\<not> n div 100 < 10" "n div 1000 < 10"
    using assms by linarith+
  have e: "n div 10 div 10 = n div 100" "n div 100 div 10 = n div 1000"
    by (simp_all add: div_mult2_eq [symmetric])
  have "showNat n = showNat (n div 10) @ [digitChar (n mod 10)]"
    using a(1) by (rule showNat_step)
  also have "showNat (n div 10) = showNat (n div 100) @ [digitChar (n div 10 mod 10)]"
    using showNat_step [OF a(2)] by (simp only: e)
  also have "showNat (n div 100) = showNat (n div 1000) @ [digitChar (n div 100 mod 10)]"
    using showNat_step [OF a(3)] by (simp only: e)
  also have "showNat (n div 1000) = [digitChar (n div 1000)]"
    using a(4) by (rule showNat_small)
  finally show ?thesis by simp
qed


lemma showNat_4_digits:
  assumes "1000 \<le> n" "n < 10000"
  shows "length (showNat n) = 4 \<and> list_all isDigit (showNat n)"
proof -
  have "n div 1000 < 10" using assms by linarith
  then show ?thesis
    unfolding showNat_4 [OF assms] by (simp add: digitChar_isDigit)
qed

lemma digitVal_le: "isDigit c \<Longrightarrow> digitVal c \<le> 9"
  by (auto simp add: isDigit_def digitVal_def)

lemma digitsToNat_2: "digitsToNat [a, b] = 10 * digitVal a + digitVal b"
  by (simp add: digitsToNat_def)

lemma len2: "length xs = 2 \<Longrightarrow> \<exists>a b. xs = [a, b]"
  by (cases xs; cases "tl xs"; cases "tl (tl xs)") auto

lemma expandYear_digits:
  assumes "list_all isDigit yy" "length yy = 2 \<or> length yy = 4"
  shows "length (expandYear yy) = 4 \<and> list_all isDigit (expandYear yy)"
proof (cases "length yy = 2")
  case True
  then obtain a b where yy: "yy = [a, b]" using len2 by blast
  with assms(1) have "digitVal a \<le> 9" "digitVal b \<le> 9" by (simp_all add: digitVal_le)
  then have lt: "digitsToNat yy < 100" unfolding yy digitsToNat_2 by simp
  define y where "y = (if digitsToNat yy \<ge> 70 then 1900 + digitsToNat yy else 2000 + digitsToNat yy)"
  from lt have "1000 \<le> y" and "y < 10000" by (simp_all add: y_def)
  from showNat_4_digits [OF this] have "length (showNat y) = 4 \<and> list_all isDigit (showNat y)" .
  moreover have "expandYear yy = showNat y"
    using True by (simp add: expandYear_def Let_def y_def)
  ultimately show ?thesis by simp
next
  case False
  with assms show ?thesis by (simp add: expandYear_def)
qed


lemma padStart2_digits:
  assumes "list_all isDigit dd" "length dd = 1 \<or> length dd = 2"
  shows "length (padStart2 dd) = 2 \<and> list_all isDigit (padStart2 dd)"
  using assms by (auto simp add: padStart2_def isDigit_def)


lemma monthKey_canonical:
  assumes "length y = 4" "list_all isDigit y" "length m = 2" "list_all isDigit m"
    and "length d = 2" "list_all isDigit d"
  shows "monthKey (y @ ''-'' @ m @ ''-'' @ d) = Some (y @ ''-'' @ m)"
proof -
  from assms(1) obtain y1 y2 y3 y4 where y: "y = [y1, y2, y3, y4]"
    by (cases y; cases "tl y"; cases "tl (tl y)"; cases "tl (tl (tl y))"; cases "tl (tl (tl (tl y)))") auto
  from assms(3) obtain m1 m2 where m: "m = [m1, m2]"
    by (cases m; cases "tl m"; cases "tl (tl m)") auto
  from assms(5) obtain d1 d2 where d: "d = [d1, d2]"
    by (cases d; cases "tl d"; cases "tl (tl d)") auto
  from assms(2,4,6) show ?thesis
    unfolding y m d
    by (simp add: monthKey_def fullMatch_def matchAnchored_def monthKeyRe_def Chr_def)
qed


lemma monthMap_digits: "monthMap k = Some v \<Longrightarrow> length v = 2 \<and> list_all isDigit v"
proof -
  assume "monthMap k = Some v"
  then have "(k, v) \<in> set [(''jan'', ''01''), (''feb'', ''02''), (''mar'', ''03''), (''apr'', ''04''),
     (''may'', ''05''), (''jun'', ''06''), (''jul'', ''07''), (''aug'', ''08''), (''sep'', ''09''),
     (''oct'', ''10''), (''nov'', ''11''), (''dec'', ''12'')]"
    unfolding monthMap_def by (rule map_of_SomeD)
  then show ?thesis by (auto simp add: isDigit_def)
qed



lemma toIsoDate_numeric:
  assumes "list_all isDigit dd" "length dd = 1 \<or> length dd = 2"
    and "list_all isDigit mm" "length mm = 1 \<or> length mm = 2"
    and "list_all isDigit yy" "length yy = 2 \<or> length yy = 4"
    and "s1 \<in> set ''./-''" "s2 \<in> set ''./-''"
  shows "toIsoDate (dd @ s1 # mm @ s2 # yy) = expandYear yy @ ''-'' @ padStart2 mm @ ''-'' @ padStart2 dd"
  by (simp add: toIsoDate_def slash_match [OF assms] grp_def Let_def)

lemma toIsoDate_monthName:
  assumes "list_all isDigit dn" "length dn = 1 \<or> length dn = 2"
    and "list_all isAlpha mon" "length mon = 3"
    and "list_all isDigit yn" "length yn = 2 \<or> length yn = 4"
    and "isSpace t1 \<or> t1 = CHR ''-''" "isSpace t2 \<or> t2 = CHR ''-''"
    and "monthMap (toLowerCase mon) = Some mnum"
  shows "toIsoDate (dn @ t1 # mon @ t2 # yn) = expandYear yn @ ''-'' @ mnum @ ''-'' @ padStart2 dn"
  by (simp add: toIsoDate_def monthName_no_slash [OF assms(1-4,7)] monthName_match [OF assms(1-8)]
      grp_def Let_def assms(9))

lemma ex70: "toIsoDate ''01/01/70'' = ''1970-01-01''"
proof -
  have "toIsoDate (''01'' @ CHR ''/'' # ''01'' @ CHR ''/'' # ''70'')
      = expandYear ''70'' @ ''-'' @ padStart2 ''01'' @ ''-'' @ padStart2 ''01''"
    by (rule toIsoDate_numeric) (simp_all add: isDigit_def)
  moreover have "expandYear ''70'' = ''1970''"
    by (simp add: expandYear_def digitsToNat_def digitVal_def showNat_4 digitChar_def)
  ultimately show ?thesis by (simp add: padStart2_def)
qed

lemma ex69: "toIsoDate ''01/01/69'' = ''2069-01-01''"
proof -
  have "toIsoDate (''01'' @ CHR ''/'' # ''01'' @ CHR ''/'' # ''69'')
      = expandYear ''69'' @ ''-'' @ padStart2 ''01'' @ ''-'' @ padStart2 ''01''"
    by (rule toIsoDate_numeric) (simp_all add: isDigit_def)
  moreover have "expandYear ''69'' = ''2069''"
    by (simp add: expandYear_def digitsToNat_def digitVal_def showNat_4 digitChar_def)
  ultimately show ?thesis by (simp add: padStart2_def)
qed

text \<open>
  C6. A date token of the grammar of the specification is one or two digits, a separator,
  a month, a separator and a year of two or four digits: the month is one or two digits
  between separators out of \<^verbatim>\<open>. / -\<close>, or three letters that lower-case to one of
  \<^verbatim>\<open>jan\<close> to \<^verbatim>\<open>dec\<close> between spaces or dashes. On every such token \<^verbatim>\<open>toIsoDate\<close>
  answers year, month and day, zero-padded and joined by dashes, a string of the form
  \<^verbatim>\<open>dddd-dd-dd\<close> (the one \<^verbatim>\<open>monthKey\<close> accepts); a two-digit year \<open>Y\<close> becomes
  \<open>1900 + Y\<close> from 70 on and \<open>2000 + Y\<close> below, and a four-digit year stays.
\<close>

theorem toIsoDate_canonical:
  assumes "list_all isDigit dd" "length dd = 1 \<or> length dd = 2"
    and "list_all isDigit mm" "length mm = 1 \<or> length mm = 2"
    and "list_all isDigit yy" "length yy = 2 \<or> length yy = 4"
    and "s1 \<in> set ''./-''" "s2 \<in> set ''./-''"
    and "list_all isDigit dn" "length dn = 1 \<or> length dn = 2"
    and "list_all isAlpha mon" "length mon = 3"
    and "list_all isDigit yn" "length yn = 2 \<or> length yn = 4"
    and "isSpace t1 \<or> t1 = CHR ''-''" "isSpace t2 \<or> t2 = CHR ''-''"
    and "monthMap (toLowerCase mon) = Some mnum"
  shows "toIsoDate (dd @ s1 # mm @ s2 # yy) = expandYear yy @ ''-'' @ padStart2 mm @ ''-'' @ padStart2 dd
       \<and> monthKey (toIsoDate (dd @ s1 # mm @ s2 # yy)) = Some (expandYear yy @ ''-'' @ padStart2 mm)
       \<and> toIsoDate (dn @ t1 # mon @ t2 # yn) = expandYear yn @ ''-'' @ mnum @ ''-'' @ padStart2 dn
       \<and> monthKey (toIsoDate (dn @ t1 # mon @ t2 # yn)) = Some (expandYear yn @ ''-'' @ mnum)
       \<and> expandYear yy = (if length yy = 2
                          then showNat (if digitsToNat yy \<ge> 70 then 1900 + digitsToNat yy
                                        else 2000 + digitsToNat yy)
                          else yy)
       \<and> length (expandYear yy) = 4 \<and> list_all isDigit (expandYear yy)
       \<and> toIsoDate ''01/01/70'' = ''1970-01-01'' \<and> toIsoDate ''01/01/69'' = ''2069-01-01''"
proof -
  have n: "toIsoDate (dd @ s1 # mm @ s2 # yy) = expandYear yy @ ''-'' @ padStart2 mm @ ''-'' @ padStart2 dd"
    by (rule toIsoDate_numeric [OF assms(1-8)])
  have m: "toIsoDate (dn @ t1 # mon @ t2 # yn) = expandYear yn @ ''-'' @ mnum @ ''-'' @ padStart2 dn"
    by (rule toIsoDate_monthName [OF assms(9-17)])
  note ey = expandYear_digits [OF assms(5,6)]
  note eyn = expandYear_digits [OF assms(13,14)]
  note pm = padStart2_digits [OF assms(3,4)]
  note pd = padStart2_digits [OF assms(1,2)]
  note pdn = padStart2_digits [OF assms(9,10)]
  note mn = monthMap_digits [OF assms(17)]
  have kn: "monthKey (toIsoDate (dd @ s1 # mm @ s2 # yy)) = Some (expandYear yy @ ''-'' @ padStart2 mm)"
    unfolding n using ey pm pd by (intro monthKey_canonical) simp_all
  have km: "monthKey (toIsoDate (dn @ t1 # mon @ t2 # yn)) = Some (expandYear yn @ ''-'' @ mnum)"
    unfolding m using eyn mn pdn by (intro monthKey_canonical) simp_all
  have piv: "expandYear yy = (if length yy = 2
                          then showNat (if digitsToNat yy \<ge> 70 then 1900 + digitsToNat yy
                                        else 2000 + digitsToNat yy)
                          else yy)"
    by (simp add: expandYear_def Let_def)
  from n kn m km piv ey ex70 ex69 show ?thesis by (intro conjI) simp_all
qed


lemma monthMap_Feb: "monthMap (toLowerCase ''Feb'') = Some ''02''"
  by code_simp

theorem toIsoDate_canonical_witness:
  "toIsoDate ''1.1.70'' = ''1970-01-01''
   \<and> monthKey (toIsoDate ''1.1.70'') = Some ''1970-01''
   \<and> toIsoDate ''5-Feb-2024'' = ''2024-02-05''
   \<and> monthKey (toIsoDate ''5-Feb-2024'') = Some ''2024-02''"
proof -
  have y: "expandYear ''70'' = ''1970''"
    by (simp add: expandYear_def digitsToNat_def digitVal_def showNat_4 digitChar_def)
  have y2: "expandYear ''2024'' = ''2024''"
    by (simp add: expandYear_def)
  have p: "padStart2 ''1'' = ''01''" "padStart2 ''5'' = ''05''"
    by (simp_all add: padStart2_def)
  have d: "list_all isDigit ''1''" "list_all isDigit ''70''" "list_all isDigit ''5''"
    "list_all isDigit ''2024''"
    by (simp_all add: isDigit_def)
  have a: "list_all isAlpha ''Feb''"
    by (simp add: isAlpha_def isUpper_def isLower_def)
  have s: "length ''1'' = 1 \<or> length ''1'' = 2" "length ''70'' = 2 \<or> length ''70'' = 4"
    "length ''5'' = 1 \<or> length ''5'' = 2" "length ''2024'' = 2 \<or> length ''2024'' = 4"
    "length ''Feb'' = 3" "CHR ''.'' \<in> set ''./-''" "isSpace CHR ''-'' \<or> CHR ''-'' = CHR ''-''"
    by simp_all
  note h = toIsoDate_canonical [OF d(1) s(1) d(1) s(1) d(2) s(2) s(6) s(6) d(3) s(3) a s(5) d(4) s(4)
      s(7) s(7) monthMap_Feb]
  from h have "toIsoDate ''1.1.70'' = ''1970-01-01''" by (simp add: y p)
  moreover from h have "monthKey (toIsoDate (''1'' @ CHR ''.'' # ''1'' @ CHR ''.'' # ''70''))
      = Some (expandYear ''70'' @ ''-'' @ padStart2 ''1'')" by (elim conjE)
  then have "monthKey (toIsoDate ''1.1.70'') = Some ''1970-01''" by (simp add: y p)
  moreover from h have "toIsoDate ''5-Feb-2024'' = ''2024-02-05''" by (simp add: y2 p)
  moreover from h have "monthKey (toIsoDate (''5'' @ CHR ''-'' # ''Feb'' @ CHR ''-'' # ''2024''))
      = Some (expandYear ''2024'' @ ''-'' @ ''02'')" by (elim conjE)
  then have "monthKey (toIsoDate ''5-Feb-2024'') = Some ''2024-02''" by (simp add: y2)
  ultimately show ?thesis by (intro conjI)
qed

section \<open>Dates that pass through\<close>

lemma foldl_skip:
  assumes "\<And>m t. \<not> P t \<Longrightarrow> f m t = m"
  shows "foldl f m L = foldl f m (filter P L)"
  using assms by (induction L arbitrary: m) auto

lemma monthMapOf_foldl: "monthMapOf L = foldl monthStep [] L"
  by (simp add: monthMapOf_def monthStep_def [abs_def])

lemma monthMapOf_filter: "monthMapOf L = monthMapOf (filter (\<lambda>t. monthKey (date t) \<noteq> None) L)"
  unfolding monthMapOf_foldl
  by (rule foldl_skip) (simp add: monthStep_def)

lemma monthStep_keys:
  "fst ` set (monthStep m t)
     = (case monthKey (date t) of None \<Rightarrow> fst ` set m | Some mk \<Rightarrow> insert mk (fst ` set m))"
  by (auto simp add: monthStep_def update_keys split: option.splits prod.splits if_splits
      simp flip: set_map)

lemma monthMapOf_keys:
  "fst ` set (monthMapOf L) = {mk. \<exists>t \<in> set L. monthKey (date t) = Some mk}"
proof (induction L rule: rev_induct)
  case Nil
  then show ?case by (simp add: monthMapOf_foldl)
next
  case (snoc t L)
  have "monthMapOf (L @ [t]) = monthStep (monthMapOf L) t"
    by (simp add: monthMapOf_foldl)
  then show ?case
    using snoc by (auto simp add: monthStep_keys split: option.splits)
qed

lemma monthOverMonth_months:
  "set (map mom_month (monthOverMonth (buildInsights L)))
     = {mk. \<exists>t \<in> set L. monthKey (date t) = Some mk}"
proof -
  have "map mom_month (monthOverMonthOf L) = map fst (sort_key fst (monthMapOf L))"
    by (simp add: monthOverMonthOf_def case_prod_beta comp_def)
  then have "set (map mom_month (monthOverMonthOf L)) = fst ` set (monthMapOf L)"
    by simp
  then show ?thesis
    by (simp add: buildInsights_def Let_def monthMapOf_keys)
qed

lemma monthOverMonth_filter:
  "monthOverMonth (buildInsights L)
     = monthOverMonth (buildInsights (filter (\<lambda>t. monthKey (date t) \<noteq> None) L))"
  using monthMapOf_filter [of L]
  by (simp add: buildInsights_def Let_def monthOverMonthOf_def)

lemma monthOverMonth_none:
  assumes "\<forall>t \<in> set L. monthKey (date t) = None"
  shows "monthOverMonth (buildInsights L) = []"
proof -
  from assms have "filter (\<lambda>t. monthKey (date t) \<noteq> None) L = []"
    by (induction L) auto
  then have "monthMapOf L = []"
    using monthMapOf_filter [of L] by (simp add: monthMapOf_def)
  then show ?thesis
    by (simp add: buildInsights_def Let_def monthOverMonthOf_def)
qed

lemma toIsoDate_passthrough:
  assumes "matchAnchored slashDateRe d = None"
    and "matchAnchored monthNameDateRe d = None
         \<or> (\<exists>m. matchAnchored monthNameDateRe d = Some m \<and> monthMap (toLowerCase (grp m 2)) = None)"
  shows "toIsoDate d = d"
  using assms by (auto simp add: toIsoDate_def Let_def)


lemma Foo_no_slash: "matchAnchored slashDateRe ''01 Foo 2024'' = None"
  by code_simp

lemma Foo_monthName:
  "matchAnchored monthNameDateRe ''01 Foo 2024'' = Some [(3, ''2024''), (2, ''Foo''), (1, ''01'')]"
  by code_simp

lemma Foo_not_a_month: "monthMap (toLowerCase ''Foo'') = None"
  by code_simp

lemma Foo_monthKey: "monthKey ''01 Foo 2024'' = None"
  by code_simp

lemma Foo_row: "map pt_date (parseIciciRows ''01 Foo 2024 RENT 100.00 900.00'') = [''01 Foo 2024'']"
  by code_simp

lemma Jan_monthKey: "monthKey ''2024-01-05'' = Some ''2024-01''"
  by code_simp

text \<open>
  C10. \<^verbatim>\<open>toIsoDate\<close> has no failing branch: it is a total function. On a string that
  matches neither pattern, or matches the month-name pattern with three letters that are
  no key of the month map, it answers its argument. So a date token such as
  \<^verbatim>\<open>01 Foo 2024\<close> reaches a transaction unchanged; \<^verbatim>\<open>monthKey\<close> answers \<^verbatim>\<open>null\<close> on
  it, and the month-over-month breakdown is the one of the transactions that have a month
  key: its months are exactly their month keys.
\<close>

theorem toIsoDate_passthrough_omitted:
  "(matchAnchored slashDateRe d = None
      \<and> (matchAnchored monthNameDateRe d = None
          \<or> (\<exists>m. matchAnchored monthNameDateRe d = Some m \<and> monthMap (toLowerCase (grp m 2)) = None))
     \<longrightarrow> toIsoDate d = d)
   \<and> toIsoDate ''01 Foo 2024'' = ''01 Foo 2024''
   \<and> monthKey ''01 Foo 2024'' = None
   \<and> map pt_date (parseIciciRows ''01 Foo 2024 RENT 100.00 900.00'') = [''01 Foo 2024'']
   \<and> monthOverMonth (buildInsights L)
       = monthOverMonth (buildInsights (filter (\<lambda>t. monthKey (date t) \<noteq> None) L))
   \<and> set (map mom_month (monthOverMonth (buildInsights L)))
       = {mk. \<exists>t \<in> set L. monthKey (date t) = Some mk}
   \<and> ((\<forall>t \<in> set L. monthKey (date t) = None) \<longrightarrow> monthOverMonth (buildInsights L) = [])"
proof -
  have a: "matchAnchored slashDateRe d = None
      \<and> (matchAnchored monthNameDateRe d = None
          \<or> (\<exists>m. matchAnchored monthNameDateRe d = Some m \<and> monthMap (toLowerCase (grp m 2)) = None))
     \<longrightarrow> toIsoDate d = d"
    using toIsoDate_passthrough by blast
  have b: "toIsoDate ''01 Foo 2024'' = ''01 Foo 2024''"
    by (rule toIsoDate_passthrough [OF Foo_no_slash])
      (simp add: Foo_monthName grp_def Foo_not_a_month)
  have c: "(\<forall>t \<in> set L. monthKey (date t) = None) \<longrightarrow> monthOverMonth (buildInsights L) = []"
    using monthOverMonth_none by blast
  from a b c Foo_monthKey Foo_row monthOverMonth_filter [of L] monthOverMonth_months [of L]
  show ?thesis by (intro conjI)
qed

theorem toIsoDate_passthrough_omitted_witness:
  "matchAnchored slashDateRe ''01 Foo 2024'' = None
   \<and> matchAnchored monthNameDateRe ''01 Foo 2024'' = Some [(3, ''2024''), (2, ''Foo''), (1, ''01'')]
   \<and> monthMap (toLowerCase ''Foo'') = None
   \<and> toIsoDate ''01 Foo 2024'' = ''01 Foo 2024''
   \<and> monthOverMonth (buildInsights [ex_debit ''1'' ''01 Foo 2024'' ''RENT'' 100]) = []
   \<and> map mom_month (monthOverMonth (buildInsights
         [ex_debit ''1'' ''01 Foo 2024'' ''RENT'' 100, ex_debit ''2'' ''2024-01-05'' ''RENT'' 100]))
       = [''2024-01'']"
  using toIsoDate_passthrough_omitted [of "''01 Foo 2024''" "[ex_debit ''1'' ''01 Foo 2024'' ''RENT'' 100]"]
    Foo_no_slash Foo_monthName Foo_not_a_month
  by (simp add: ex_debit_def Foo_monthKey Jan_monthKey buildInsights_def Let_def monthOverMonthOf_def
      monthMapOf_def)

section \<open>Text without a header\<close>

lemma parseRowsStep_outside:
  "\<not> inTable st \<Longrightarrow> \<not> looksLikeHeader l \<Longrightarrow> parseRowsStep st l = st"
  by (simp add: parseRowsStep_def)

lemma parseStatementRowsStep_outside:
  "\<not> inTable st \<Longrightarrow> \<not> looksLikeHeader l \<Longrightarrow> parseStatementRowsStep st l = st"
  by (simp add: parseStatementRowsStep_def)

lemma foldl_parseRowsStep_outside:
  "\<not> inTable st \<Longrightarrow> \<forall>l \<in> set ls. \<not> looksLikeHeader l \<Longrightarrow> foldl parseRowsStep st ls = st"
  by (induction ls arbitrary: st) (simp_all add: parseRowsStep_outside)

lemma foldl_parseStatementRowsStep_outside:
  "\<not> inTable st \<Longrightarrow> \<forall>l \<in> set ls. \<not> looksLikeHeader l \<Longrightarrow> foldl parseStatementRowsStep st ls = st"
  by (induction ls arbitrary: st) (simp_all add: parseStatementRowsStep_outside)

lemma parseRowsOver_prefix:
  "\<forall>l \<in> set pre. \<not> looksLikeHeader l \<Longrightarrow> parseRowsOver (pre @ ls) = parseRowsOver ls"
  by (simp add: parseRowsOver_def foldl_parseRowsStep_outside)

lemma parseStatementRowsOver_prefix:
  "\<forall>l \<in> set pre. \<not> looksLikeHeader l \<Longrightarrow> parseStatementRowsOver (pre @ ls) = parseStatementRowsOver ls"
  by (simp add: parseStatementRowsOver_def foldl_parseStatementRowsStep_outside)

lemma parseRowsOver_Nil: "parseRowsOver [] = []"
  by (simp add: parseRowsOver_def pushCurrent_def)

lemma parseStatementRowsOver_Nil: "parseStatementRowsOver [] = []"
  by (simp add: parseStatementRowsOver_def pushCurrent_def)

lemma parseRows_headerless:
  "\<forall>l \<in> set (jsLines text). \<not> looksLikeHeader l \<Longrightarrow> parseRows text = []"
  using parseRowsOver_prefix [of "jsLines text" "[]"]
  by (simp add: parseRows_def parseRowsOver_Nil)

lemma parseStatementRows_headerless:
  "\<forall>l \<in> set (jsLines text). \<not> looksLikeHeader l \<Longrightarrow> parseStatementRows text = []"
  using parseStatementRowsOver_prefix [of "jsLines text" "[]"]
  by (simp add: parseStatementRows_def parseStatementRowsOver_Nil)

lemma pipeline_empty:
  assumes "parseIciciRows text = []" and "genericParse text = []"
  shows "parseTransactionsFromText text = Inr []"
  using assms
  by (simp add: parseTransactionsFromText_def runParserPipeline_def runParserPipelineOver_def PARSERS_def
      iciciStatementParser_def genericStatementParser_def parserScore_def)

lemma buildInsights_Nil:
  "buildInsights [] =
     \<lparr>transactionCount = 0, totalDebits = 0, totalCredits = 0, netFlow = 0, incomeExpenseRatio = None,
      avgDebit = 0, avgCredit = 0, categoryBreakdown = [], monthOverMonth = [], subscriptions = [],
      unusualSpends = [], topExpense = None, topCredit = None\<rparr>"
  by (simp add: buildInsights_def sumAbs_def categoryBreakdownOf_def categoryMap_def monthOverMonthOf_def
      monthMapOf_def subscriptionsOf_def merchantGroups_def unusualSpendsOf_def topExpenseTxn_def
      topCreditTxn_def)

text \<open>
  C3, as the code has it. On a text none of whose lines satisfies the header predicate,
  the generic strategy and the analyze route's own row parser extract nothing: lines
  before a header are discarded by both. The ICICI strategy has no header gate and reads
  every line that starts with a date token, so the pipeline's list is empty only if the
  ICICI strategy finds no row either. An empty list is no failure: its insights have all
  totals zero, no ratio and empty breakdowns.
\<close>

theorem headerless_text:
  assumes "\<forall>l \<in> set (jsLines text). \<not> looksLikeHeader l"
  shows "parseRows text = [] \<and> genericParse text = []
       \<and> parseStatementRows text = [] \<and> toTxns (parseStatementRows text) = []
       \<and> (parseIciciRows text = [] \<longrightarrow> parseTransactionsFromText text = Inr [])
       \<and> ((\<forall>l \<in> set pre. \<not> looksLikeHeader l) \<longrightarrow>
            parseRowsOver (pre @ ls) = parseRowsOver ls
            \<and> parseStatementRowsOver (pre @ ls) = parseStatementRowsOver ls)
       \<and> buildInsights [] =
           \<lparr>transactionCount = 0, totalDebits = 0, totalCredits = 0, netFlow = 0,
            incomeExpenseRatio = None, avgDebit = 0, avgCredit = 0, categoryBreakdown = [],
            monthOverMonth = [], subscriptions = [], unusualSpends = [], topExpense = None,
            topCredit = None\<rparr>"
proof -
  have a: "parseRows text = []" by (rule parseRows_headerless [OF assms])
  then have b: "genericParse text = []" by (simp add: genericParse_def rowsToTxns_def)
  have c: "parseStatementRows text = []" by (rule parseStatementRows_headerless [OF assms])
  then have d: "toTxns (parseStatementRows text) = []" by (simp add: toTxns_def)
  have e: "parseIciciRows text = [] \<longrightarrow> parseTransactionsFromText text = Inr []"
    using pipeline_empty b by blast
  have f: "(\<forall>l \<in> set pre. \<not> looksLikeHeader l) \<longrightarrow>
            parseRowsOver (pre @ ls) = parseRowsOver ls
            \<and> parseStatementRowsOver (pre @ ls) = parseStatementRowsOver ls"
    using parseRowsOver_prefix parseStatementRowsOver_prefix by blast
  from a b c d e f buildInsights_Nil show ?thesis by (intro conjI)
qed

lemma ex_headerless_lines: "jsLines ex_headerless = [ex_headerless]"
  by code_simp

lemma ex_headerless_no_header: "\<not> looksLikeHeader ex_headerless"
  by code_simp

lemma ex_headerless_txns:
  "parseTransactionsFromText ex_headerless =
   Inr [\<lparr>txn_id = ''2024-01-01-icici-v1-1'', date = ''2024-01-01'',
         description = ''COFFEE'', amount = - 100, drCr = Some DR,
         sourceParser = Some ''icici-v1'', currency = ''INR'',
         category = ''fees'', confidence = 0.86, txn_merchant = None,
         txn_isSubscription = None\<rparr>]"
  by code_simp

theorem headerless_icici_counterexample:
  "jsLines ex_headerless = [ex_headerless] \<and> \<not> looksLikeHeader ex_headerless
   \<and> parseTransactionsFromText ex_headerless =
       Inr [\<lparr>txn_id = ''2024-01-01-icici-v1-1'', date = ''2024-01-01'',
         description = ''COFFEE'', amount = - 100, drCr = Some DR,
         sourceParser = Some ''icici-v1'', currency = ''INR'',
         category = ''fees'', confidence = 0.86, txn_merchant = None,
         txn_isSubscription = None\<rparr>]"
  using ex_headerless_lines ex_headerless_no_header ex_headerless_txns by (intro conjI)

lemma ex_note_lines: "jsLines ''Statement of account'' = [''Statement of account'']"
  by code_simp

lemma ex_note_no_header: "\<not> looksLikeHeader ''Statement of account''"
  by code_simp

lemma ex_note_icici: "parseIciciRows ''Statement of account'' = []"
  by code_simp

theorem headerless_text_witness:
  "jsLines ''Statement of account'' = [''Statement of account'']
   \<and> \<not> looksLikeHeader ''Statement of account''
   \<and> genericParse ''Statement of account'' = []
   \<and> parseTransactionsFromText ''Statement of account'' = Inr []
   \<and> totalDebits (buildInsights []) = 0"
  using headerless_text [of "''Statement of account''" "[]" "[]"]
    ex_note_lines ex_note_no_header ex_note_icici
  by simp

section \<open>Amount columns of a row\<close>









































end
